theory Spec2Isabelle
  imports Main
begin

section \<open>Values, exceptions and the outside world\<close>

text \<open>
  Values that travel through \<^verbatim>\<open>main.py\<close>: whatever \<^verbatim>\<open>response.json()\<close> decodes, the
  dictionaries the tools build, and Python's \<^verbatim>\<open>None\<close> (which is \<open>JNull\<close>). A dictionary is
  an association list in insertion order; JSON floats are left out. A \<open>string\<close> holds the
  UTF-8 bytes of a Python \<^verbatim>\<open>str\<close>, so any text fits and the ASCII characters are the bytes
  below 128.
\<close>

datatype json =
    JNull
  | JBool bool
  | JInt int
  | JStr string
  | JArr "json list"
  | JObj "(string \<times> json) list"

text \<open>
  Exceptions as values: the subclasses of \<^verbatim>\<open>Exception\<close>, each with the text \<^verbatim>\<open>str(e)\<close>
  gives. \<open>RequestException\<close> stands for the whole
  \<^verbatim>\<open>requests.exceptions.RequestException\<close> family; its second component is
  \<^verbatim>\<open>e.response.status_code\<close> when the exception carries a response.
\<close>

datatype exn =
    ValueError string
  | AttributeError string
  | TypeError string
  | KeyError string
  | ValidationError string
  | RequestException string "nat option"
  | OtherException string

fun str_exn :: "exn \<Rightarrow> string" where
  "str_exn (ValueError m) = m"
| "str_exn (AttributeError m) = m"
| "str_exn (TypeError m) = m"
| "str_exn (KeyError m) = m"
| "str_exn (ValidationError m) = m"
| "str_exn (RequestException m c) = m"
| "str_exn (OtherException m) = m"

datatype http_verb = GET | POST | PUT | DELETE

text \<open>The arguments of one call of \<^verbatim>\<open>requests.get/post/put/delete\<close>.\<close>

record request =
  verb :: http_verb
  url :: string
  headers :: "(string \<times> json) list"
  params :: "(string \<times> string) list"
  json_body :: "json option"
  timeout :: "nat option"

text \<open>
  A call is logged with the function that issued it: \<open>Broker\<close> for
  \<^verbatim>\<open>get_connection_credentials\<close>, \<open>Api\<close> for \<^verbatim>\<open>make_request\<close>.
\<close>

datatype call = Broker request | Api request

text \<open>
  What the HTTP library hands back: \<open>status_code\<close>, the text of the \<^verbatim>\<open>HTTPError\<close> that
  \<^verbatim>\<open>raise_for_status\<close> builds for this response, and what \<^verbatim>\<open>response.json()\<close> does.
\<close>

record response =
  status_code :: nat
  error_text :: string
  body :: "exn + json"

datatype outcome = Raises exn | Answers response

text \<open>Declared field types of the response models.\<close>

datatype ftype =
    TStr
  | TInt
  | TDict
  | TOpt ftype
  | TList ftype
  | TModel "(string \<times> ftype) list"

text \<open>
  The outside world of one tool invocation: \<^verbatim>\<open>os.environ\<close>, the outcome of the n-th
  library call (n counts the calls already made), Python's \<^verbatim>\<open>str()\<close> on a decoded value
  that is not a string, the validation library's treatment of a value that does not
  already have the declared type, and the interpreter's Unicode table behind
  \<^verbatim>\<open>str.upper()\<close> for a string with characters outside ASCII.
\<close>

record world =
  environ :: "string \<Rightarrow> string option"
  network :: "nat \<Rightarrow> call \<Rightarrow> outcome"
  format_value :: "json \<Rightarrow> string"
  coerce :: "ftype \<Rightarrow> json \<Rightarrow> json option"
  unicode_upper :: "string \<Rightarrow> string"

type_synonym 'a io = "call list \<Rightarrow> (exn + 'a) \<times> call list"

definition then_do :: "'a io \<Rightarrow> ('a \<Rightarrow> 'b io) \<Rightarrow> 'b io" where
  "then_do m f = (\<lambda>log. case m log of
       (Inl e, log') \<Rightarrow> (Inl e, log')
     | (Inr x, log') \<Rightarrow> f x log')"

definition lift :: "exn + 'a \<Rightarrow> 'a io" where
  "lift r = (\<lambda>log. (r, log))"

definition bind_res :: "exn + 'a \<Rightarrow> ('a \<Rightarrow> exn + 'b) \<Rightarrow> exn + 'b" where
  "bind_res r f = (case r of Inl e \<Rightarrow> Inl e | Inr x \<Rightarrow> f x)"

section \<open>Python primitives used by the source\<close>

fun truthy :: "json \<Rightarrow> bool" where
  "truthy JNull = False"
| "truthy (JBool b) = b"
| "truthy (JInt i) = (i \<noteq> 0)"
| "truthy (JStr s) = (s \<noteq> [])"
| "truthy (JArr xs) = (xs \<noteq> [])"
| "truthy (JObj kvs) = (kvs \<noteq> [])"

fun type_name :: "json \<Rightarrow> string" where
  "type_name JNull = ''NoneType''"
| "type_name (JBool b) = ''bool''"
| "type_name (JInt i) = ''int''"
| "type_name (JStr s) = ''str''"
| "type_name (JArr xs) = ''list''"
| "type_name (JObj kvs) = ''dict''"

text \<open>\<^verbatim>\<open>x.get(key, default)\<close>: only a dictionary has the method.\<close>

fun dict_get :: "json \<Rightarrow> string \<Rightarrow> json \<Rightarrow> exn + json" where
  "dict_get (JObj kvs) k d = Inr (case map_of kvs k of Some v \<Rightarrow> v | None \<Rightarrow> d)"
| "dict_get v k d =
     Inl (AttributeError (CHR 0x27 # type_name v @ [CHR 0x27] @ '' object has no attribute '' @ CHR 0x27 # ''get'' @ [CHR 0x27]))"

text \<open>\<^verbatim>\<open>str(x)\<close> inside an f-string: a string is itself.\<close>

definition py_str :: "world \<Rightarrow> json \<Rightarrow> string" where
  "py_str w v = (case v of JStr s \<Rightarrow> s | _ \<Rightarrow> format_value w v)"

text \<open>\<^verbatim>\<open>s.rstrip('/')\<close>\<close>

definition rstrip_slash :: "string \<Rightarrow> string" where
  "rstrip_slash s = rev (dropWhile (\<lambda>c. c = CHR ''/'') (rev s))"

text \<open>
  \<^verbatim>\<open>s.upper()\<close>: in a string of ASCII characters the letters a to z become A to Z and
  nothing else changes; a string with other characters goes through the interpreter's
  Unicode table (which, for one, turns the long s, U+017F, into S).
\<close>

definition upper_char :: "char \<Rightarrow> char" where
  "upper_char c = (let n = (of_char c :: nat) in
     if 97 \<le> n \<and> n \<le> 122 then char_of (n - 32) else c)"

definition upper :: "world \<Rightarrow> string \<Rightarrow> string" where
  "upper w s =
     (if list_all (\<lambda>c. (of_char c :: nat) < 128) s then map upper_char s
      else unicode_upper w s)"

fun is_substring :: "string \<Rightarrow> string \<Rightarrow> bool" where
  "is_substring k [] = (k = [])"
| "is_substring k (c # s) = (take (length k) (c # s) = k \<or> is_substring k s)"

text \<open>\<^verbatim>\<open>key in x\<close>\<close>

fun py_contains :: "string \<Rightarrow> json \<Rightarrow> exn + bool" where
  "py_contains k (JObj kvs) = Inr (k \<in> set (map fst kvs))"
| "py_contains k (JArr xs) = Inr (JStr k \<in> set xs)"
| "py_contains k (JStr s) = Inr (is_substring k s)"
| "py_contains k v =
     Inl (TypeError (''argument of type '' @ CHR 0x27 # type_name v @ [CHR 0x27] @ '' is not iterable''))"

text \<open>\<^verbatim>\<open>x[key]\<close> with a string key\<close>

fun py_getitem :: "json \<Rightarrow> string \<Rightarrow> exn + json" where
  "py_getitem (JObj kvs) k =
     (case map_of kvs k of Some v \<Rightarrow> Inr v | None \<Rightarrow> Inl (KeyError (CHR 0x27 # k @ [CHR 0x27])))"
| "py_getitem (JArr xs) k = Inl (TypeError ''list indices must be integers or slices, not str'')"
| "py_getitem (JStr s) k = Inl (TypeError ''string indices must be integers'')"
| "py_getitem v k =
     Inl (TypeError (CHR 0x27 # type_name v @ [CHR 0x27] @ '' object is not subscriptable''))"

text \<open>
  \<^verbatim>\<open>response.raise_for_status()\<close> of the HTTP library: an \<^verbatim>\<open>HTTPError\<close> carrying the
  response for a client error (4xx) or a server error (5xx), nothing otherwise.
\<close>

definition raise_for_status :: "response \<Rightarrow> exn option" where
  "raise_for_status r =
     (if 400 \<le> status_code r \<and> status_code r < 600
      then Some (RequestException (error_text r) (Some (status_code r)))
      else None)"

section \<open>Credential resolver\<close>

definition broker_request :: "string \<Rightarrow> string \<Rightarrow> string \<Rightarrow> string \<Rightarrow> request" where
  "broker_request conn_id integration_id base_url secret_key =
     \<lparr> verb = GET,
       url = base_url @ ''/connection/'' @ conn_id,
       headers = [(''Authorization'', JStr (''Bearer '' @ secret_key))],
       params = [(''provider_config_key'', integration_id), (''refresh_token'', ''true'')],
       json_body = None,
       timeout = None \<rparr>"

text \<open>
  One call of the HTTP library followed by \<^verbatim>\<open>response.raise_for_status()\<close> and
  \<^verbatim>\<open>return response.json()\<close>, as both \<^verbatim>\<open>get_connection_credentials\<close> and
  \<^verbatim>\<open>make_request\<close> do. The call is logged whatever its outcome.
\<close>

definition perform :: "world \<Rightarrow> call \<Rightarrow> json io" where
  "perform w c = (\<lambda>log.
     ((case network w (length log) c of
         Raises e \<Rightarrow> Inl e
       | Answers r \<Rightarrow>
           (case raise_for_status r of
              Some e \<Rightarrow> Inl e
            | None \<Rightarrow> body r)),
      log @ [c]))"

definition get_connection_credentials :: "world \<Rightarrow> json io" where
  "get_connection_credentials w =
     (case (environ w ''NANGO_CONNECTION_ID'', environ w ''NANGO_INTEGRATION_ID'',
            environ w ''NANGO_BASE_URL'', environ w ''NANGO_SECRET_KEY'') of
        (Some conn_id, Some integration_id, Some base_url, Some secret_key) \<Rightarrow>
          if conn_id = [] \<or> integration_id = [] \<or> base_url = [] \<or> secret_key = []
          then lift (Inl (ValueError ''Missing required Nango environment variables''))
          else perform w (Broker (broker_request conn_id integration_id base_url secret_key))
      | _ \<Rightarrow> lift (Inl (ValueError ''Missing required Nango environment variables'')))"

definition config_failure :: "exn \<Rightarrow> exn" where
  "config_failure e =
     ValueError (''Failed to get ActiveCampaign config from Nango: '' @ str_exn e)"

definition extract_config :: "world \<Rightarrow> json \<Rightarrow> exn + string \<times> json" where
  "extract_config w credentials =
     bind_res (dict_get credentials ''credentials'' (JObj [])) (\<lambda>c.
     bind_res (dict_get c ''apiKey'' JNull) (\<lambda>api_key.
       if \<not> truthy api_key then Inl (ValueError ''API key not found in Nango credentials'')
       else
     bind_res (dict_get credentials ''connection_config'' (JObj [])) (\<lambda>cc.
     bind_res (dict_get cc ''hostname'' JNull) (\<lambda>hostname.
       if \<not> truthy hostname then Inl (ValueError ''Hostname not found in Nango connection config'')
       else Inr (''https://'' @ py_str w hostname, api_key)))))"

definition get_activecampaign_config :: "world \<Rightarrow> (string \<times> json) io" where
  "get_activecampaign_config w = (\<lambda>log.
     case get_connection_credentials w log of
       (Inl e, log') \<Rightarrow> (Inl (config_failure e), log')
     | (Inr credentials, log') \<Rightarrow>
         (case extract_config w credentials of
            Inl e \<Rightarrow> (Inl (config_failure e), log')
          | Inr cfg \<Rightarrow> (Inr cfg, log')))"

definition get_headers :: "world \<Rightarrow> ((string \<times> json) list) io" where
  "get_headers w =
     then_do (get_activecampaign_config w) (\<lambda>(_, api_key).
       lift (Inr [(''Api-Token'', api_key),
                  (''Content-Type'', JStr ''application/json''),
                  (''Accept'', JStr ''application/json'')]))"

section \<open>HTTP request executor\<close>

definition api_request ::
  "world \<Rightarrow> string \<Rightarrow> string \<Rightarrow> (string \<times> json) list \<Rightarrow> json option \<Rightarrow> request option" where
  "api_request w method u hs data =
     (if upper w method = ''GET'' then
        Some \<lparr> verb = GET, url = u, headers = hs, params = [], json_body = None, timeout = Some 30 \<rparr>
      else if upper w method = ''POST'' then
        Some \<lparr> verb = POST, url = u, headers = hs, params = [], json_body = data, timeout = Some 30 \<rparr>
      else if upper w method = ''PUT'' then
        Some \<lparr> verb = PUT, url = u, headers = hs, params = [], json_body = data, timeout = Some 30 \<rparr>
      else if upper w method = ''DELETE'' then
        Some \<lparr> verb = DELETE, url = u, headers = hs, params = [], json_body = None, timeout = Some 30 \<rparr>
      else None)"

text \<open>The body of the \<^verbatim>\<open>try\<close> block of \<^verbatim>\<open>make_request\<close>.\<close>

definition send :: "world \<Rightarrow> string \<Rightarrow> string \<Rightarrow> (string \<times> json) list \<Rightarrow> json option \<Rightarrow> json io" where
  "send w method u hs data =
     (case api_request w method u hs data of
        None \<Rightarrow> lift (Inl (ValueError (''Unsupported HTTP method: '' @ method)))
      | Some q \<Rightarrow> perform w (Api q))"

definition error_result :: "string \<Rightarrow> nat option \<Rightarrow> json" where
  "error_result m c =
     JObj [(''error'', JStr m),
           (''status_code'', case c of None \<Rightarrow> JNull | Some n \<Rightarrow> JInt (int n))]"

text \<open>\<^verbatim>\<open>except requests.exceptions.RequestException as e\<close>: any other exception passes.\<close>

definition handle_request_exception :: "exn + json \<Rightarrow> exn + json" where
  "handle_request_exception r =
     (case r of
        Inl (RequestException m c) \<Rightarrow> Inr (error_result m c)
      | other \<Rightarrow> other)"

definition make_request :: "world \<Rightarrow> string \<Rightarrow> string \<Rightarrow> json option \<Rightarrow> json io" where
  "make_request w method endpoint data =
     then_do (get_activecampaign_config w) (\<lambda>(api_url, _).
     then_do (get_headers w) (\<lambda>hs. (\<lambda>log.
       case send w method (rstrip_slash api_url @ endpoint) hs data log of
         (r, log') \<Rightarrow> (handle_request_exception r, log'))))"

section \<open>Typed response mapper\<close>

text \<open>
  Validation of a value against a declared type. A value that already has the declared
  type is kept, a model takes its declared fields from a dictionary (missing ones default
  to \<^verbatim>\<open>None\<close>, undeclared ones are ignored); anything else is left to the library's
  coercion rules, \<open>coerce\<close>.
\<close>

fun validate :: "world \<Rightarrow> ftype \<Rightarrow> json \<Rightarrow> json option" where
  "validate w (TOpt t) v = (if v = JNull then Some JNull else validate w t v)"
| "validate w TStr v = (case v of JStr s \<Rightarrow> Some v | _ \<Rightarrow> coerce w TStr v)"
| "validate w TInt v = (case v of JInt i \<Rightarrow> Some v | _ \<Rightarrow> coerce w TInt v)"
| "validate w TDict v = (case v of JObj kvs \<Rightarrow> Some v | _ \<Rightarrow> coerce w TDict v)"
| "validate w (TList t) v =
     (case v of
        JArr xs \<Rightarrow> map_option JArr (those (map (validate w t) xs))
      | _ \<Rightarrow> coerce w (TList t) v)"
| "validate w (TModel fs) v =
     (case v of
        JObj kvs \<Rightarrow>
          map_option JObj (those (map (\<lambda>(n, t).
            case map_of kvs n of
              None \<Rightarrow> Some (n, JNull)
            | Some x \<Rightarrow> map_option (Pair n) (validate w t x)) fs))
      | _ \<Rightarrow> coerce w (TModel fs) v)"

text \<open>\<^verbatim>\<open>Model(**result)\<close>: the keyword expansion needs a dictionary.\<close>

definition construct :: "world \<Rightarrow> string \<Rightarrow> (string \<times> ftype) list \<Rightarrow> json \<Rightarrow> exn + json" where
  "construct w cls fs result =
     (case result of
        JObj kvs \<Rightarrow>
          (case validate w (TModel fs) result of
             Some m \<Rightarrow> Inr m
           | None \<Rightarrow> Inl (ValidationError (''validation error for '' @ cls)))
      | _ \<Rightarrow> Inl (TypeError (cls @ ''() argument after ** must be a mapping, not '' @ type_name result)))"

abbreviation opt_str :: ftype where "opt_str \<equiv> TOpt TStr"

definition ContactData :: "(string \<times> ftype) list" where
  "ContactData = [(''cdate'', opt_str), (''email'', opt_str), (''phone'', opt_str),
     (''firstName'', opt_str), (''lastName'', opt_str), (''orgid'', opt_str), (''id'', opt_str)]"

definition ContactListData :: "(string \<times> ftype) list" where
  "ContactListData = [(''contact'', opt_str), (''list'', opt_str), (''status'', TOpt TInt),
     (''id'', opt_str)]"

definition ContactResponse :: "(string \<times> ftype) list" where
  "ContactResponse = [(''contacts'', TOpt (TList (TModel ContactData))),
     (''contactList'', TOpt (TModel ContactListData)), (''error'', opt_str)]"

definition CampaignData :: "(string \<times> ftype) list" where
  "CampaignData = [(''type'', opt_str), (''name'', opt_str), (''status'', opt_str),
     (''cdate'', opt_str), (''mdate'', opt_str), (''id'', opt_str)]"

definition CampaignResponse :: "(string \<times> ftype) list" where
  "CampaignResponse = [(''campaign'', TOpt (TModel CampaignData)),
     (''campaigns'', TOpt (TList (TModel CampaignData))), (''meta'', TOpt TDict),
     (''error'', opt_str)]"

definition ListData :: "(string \<times> ftype) list" where
  "ListData = [(''name'', opt_str), (''stringid'', opt_str), (''cdate'', opt_str),
     (''id'', opt_str)]"

definition ListResponse :: "(string \<times> ftype) list" where
  "ListResponse = [(''list'', TOpt (TModel ListData)),
     (''lists'', TOpt (TList (TModel ListData))), (''error'', opt_str)]"

definition DealData :: "(string \<times> ftype) list" where
  "DealData = [(''title'', opt_str), (''value'', opt_str), (''currency'', opt_str),
     (''status'', opt_str), (''id'', opt_str)]"

definition DealResponse :: "(string \<times> ftype) list" where
  "DealResponse = [(''deal'', TOpt (TModel DealData)),
     (''deals'', TOpt (TList (TModel DealData))), (''error'', opt_str)]"

definition AccountData :: "(string \<times> ftype) list" where
  "AccountData = [(''name'', opt_str), (''accountUrl'', opt_str), (''id'', opt_str)]"

definition NoteData :: "(string \<times> ftype) list" where
  "NoteData = [(''note'', opt_str), (''cdate'', opt_str), (''id'', opt_str)]"

definition AccountResponse :: "(string \<times> ftype) list" where
  "AccountResponse = [(''accounts'', TOpt (TList (TModel AccountData))),
     (''note'', TOpt (TModel NoteData)), (''error'', opt_str)]"

definition TagData :: "(string \<times> ftype) list" where
  "TagData = [(''tag'', opt_str), (''tagType'', opt_str), (''description'', opt_str),
     (''id'', opt_str)]"

definition TagResponse :: "(string \<times> ftype) list" where
  "TagResponse = [(''tag'', TOpt (TModel TagData)),
     (''tags'', TOpt (TList (TModel TagData))), (''error'', opt_str)]"

definition MessageData :: "(string \<times> ftype) list" where
  "MessageData = [(''name'', opt_str), (''subject'', opt_str), (''fromname'', opt_str),
     (''fromemail'', opt_str), (''id'', opt_str)]"

definition MessageResponse :: "(string \<times> ftype) list" where
  "MessageResponse = [(''message'', TOpt (TModel MessageData)),
     (''messages'', TOpt (TList (TModel MessageData))), (''error'', opt_str)]"

definition UserData :: "(string \<times> ftype) list" where
  "UserData = [(''username'', opt_str), (''email'', opt_str), (''firstName'', opt_str),
     (''lastName'', opt_str), (''id'', opt_str)]"

definition UserResponse :: "(string \<times> ftype) list" where
  "UserResponse = [(''user'', TOpt (TModel UserData)),
     (''users'', TOpt (TList (TModel UserData))), (''error'', opt_str)]"

definition PipelineData :: "(string \<times> ftype) list" where
  "PipelineData = [(''title'', opt_str), (''currency'', opt_str), (''id'', opt_str)]"

definition PipelineResponse :: "(string \<times> ftype) list" where
  "PipelineResponse = [(''pipeline'', TOpt (TModel PipelineData)),
     (''pipelines'', TOpt (TList (TModel PipelineData))), (''error'', opt_str)]"

definition FieldValueData :: "(string \<times> ftype) list" where
  "FieldValueData = [(''contact'', opt_str), (''field'', opt_str), (''value'', opt_str),
     (''id'', opt_str)]"

definition FieldValueResponse :: "(string \<times> ftype) list" where
  "FieldValueResponse = [(''fieldValue'', TOpt (TModel FieldValueData)),
     (''fieldValues'', TOpt (TList (TModel FieldValueData))), (''error'', opt_str)]"

definition AutomationData :: "(string \<times> ftype) list" where
  "AutomationData = [(''name'', opt_str), (''status'', opt_str), (''entered'', opt_str),
     (''id'', opt_str)]"

definition AutomationResponse :: "(string \<times> ftype) list" where
  "AutomationResponse = [(''automation'', TOpt (TModel AutomationData)),
     (''automations'', TOpt (TList (TModel AutomationData))), (''error'', opt_str)]"


section \<open>Tools\<close>

text \<open>\<^verbatim>\<open>d[k] = v\<close> on a dictionary\<close>

fun dict_set :: "(string \<times> json) list \<Rightarrow> string \<Rightarrow> json \<Rightarrow> (string \<times> json) list" where
  "dict_set [] k v = [(k, v)]"
| "dict_set (p # ps) k v = (if fst p = k then (k, v) # ps else p # dict_set ps k v)"

definition update_list_status_for_contact :: "world \<Rightarrow> string \<Rightarrow> string \<Rightarrow> int \<Rightarrow> json io" where
  "update_list_status_for_contact w contact_id list_id status =
     then_do (make_request w ''POST'' (''/api/3/contacts/'' @ contact_id @ ''/contactLists'')
        (Some (JObj [(''contactList'',
           JObj [(''list'', JStr list_id), (''contact'', JStr contact_id),
                 (''status'', JInt status)])]))) (\<lambda>result.
       lift (construct w ''ContactResponse'' ContactResponse result))"

definition get_custom_field_contact :: "world \<Rightarrow> string \<Rightarrow> json io" where
  "get_custom_field_contact w field_id =
     then_do (make_request w ''GET'' (''/api/3/fields/'' @ field_id) None) (\<lambda>result.
       lift (construct w ''FieldValueResponse'' FieldValueResponse result))"

definition list_custom_field_values :: "world \<Rightarrow> string \<Rightarrow> json io" where
  "list_custom_field_values w field_id =
     then_do (make_request w ''GET'' (''/api/3/fieldValues'') None) (\<lambda>result.
       lift (construct w ''FieldValueResponse'' FieldValueResponse result))"

definition get_list :: "world \<Rightarrow> string \<Rightarrow> json io" where
  "get_list w list_id =
     then_do (make_request w ''GET'' (''/api/3/lists/'' @ list_id) None) (\<lambda>result.
       lift (construct w ''ListResponse'' ListResponse result))"

definition list_campaigns :: "world \<Rightarrow> json io" where
  "list_campaigns w =
     then_do (make_request w ''GET'' (''/api/3/campaigns'') None) (\<lambda>result.
       lift (construct w ''CampaignResponse'' CampaignResponse result))"

definition list_automations :: "world \<Rightarrow> json io" where
  "list_automations w =
     then_do (make_request w ''GET'' (''/api/3/automations'') None) (\<lambda>result.
       lift (construct w ''AutomationResponse'' AutomationResponse result))"

definition list_users :: "world \<Rightarrow> json io" where
  "list_users w =
     then_do (make_request w ''GET'' (''/api/3/users'') None) (\<lambda>result.
       lift (construct w ''UserResponse'' UserResponse result))"

definition list_pipelines :: "world \<Rightarrow> json io" where
  "list_pipelines w =
     then_do (make_request w ''GET'' (''/api/3/dealGroups'') None) (\<lambda>result.
       lift (construct w ''PipelineResponse'' PipelineResponse result))"

definition list_messages :: "world \<Rightarrow> json io" where
  "list_messages w =
     then_do (make_request w ''GET'' (''/api/3/messages'') None) (\<lambda>result.
       lift (construct w ''MessageResponse'' MessageResponse result))"

definition get_deal :: "world \<Rightarrow> string \<Rightarrow> json io" where
  "get_deal w deal_id =
     then_do (make_request w ''GET'' (''/api/3/deals/'' @ deal_id) None) (\<lambda>result.
       lift (construct w ''DealResponse'' DealResponse result))"

definition list_deals :: "world \<Rightarrow> json io" where
  "list_deals w =
     then_do (make_request w ''GET'' (''/api/3/deals'') None) (\<lambda>result.
       lift (construct w ''DealResponse'' DealResponse result))"

definition create_an_account_note :: "world \<Rightarrow> string \<Rightarrow> string \<Rightarrow> json io" where
  "create_an_account_note w account_id note_text =
     then_do (make_request w ''POST'' ''/api/3/notes''
        (Some (JObj [(''note'',
           JObj [(''note'', JStr note_text), (''relid'', JStr account_id),
                 (''reltype'', JStr ''account'')])]))) (\<lambda>result.
       lift (construct w ''AccountResponse'' AccountResponse result))"

definition get_tag :: "world \<Rightarrow> string \<Rightarrow> json io" where
  "get_tag w tag_id =
     then_do (make_request w ''GET'' (''/api/3/tags/'' @ tag_id) None) (\<lambda>result.
       lift (construct w ''TagResponse'' TagResponse result))"

definition get_campaign :: "world \<Rightarrow> string \<Rightarrow> json io" where
  "get_campaign w campaign_id =
     then_do (make_request w ''GET'' (''/api/3/campaigns/'' @ campaign_id) None) (\<lambda>result.
       lift (construct w ''CampaignResponse'' CampaignResponse result))"

definition get_pipeline :: "world \<Rightarrow> string \<Rightarrow> json io" where
  "get_pipeline w pipeline_id =
     then_do (make_request w ''GET'' (''/api/3/dealGroups/'' @ pipeline_id) None) (\<lambda>result.
       lift (construct w ''PipelineResponse'' PipelineResponse result))"

text \<open>The dictionary \<^verbatim>\<open>update_message\<close> builds under \<^verbatim>\<open>"message"\<close>, one \<^verbatim>\<open>if\<close> after the other.\<close>

definition message_fields ::
  "string option \<Rightarrow> string option \<Rightarrow> string option \<Rightarrow> string option \<Rightarrow> (string \<times> json) list" where
  "message_fields name subject fromname fromemail =
     (let m0 = [];
          m1 = (case name of Some v \<Rightarrow> dict_set m0 ''name'' (JStr v) | None \<Rightarrow> m0);
          m2 = (case subject of Some v \<Rightarrow> dict_set m1 ''subject'' (JStr v) | None \<Rightarrow> m1);
          m3 = (case fromname of Some v \<Rightarrow> dict_set m2 ''fromname'' (JStr v) | None \<Rightarrow> m2);
          m4 = (case fromemail of Some v \<Rightarrow> dict_set m3 ''fromemail'' (JStr v) | None \<Rightarrow> m3)
      in m4)"

definition update_message ::
  "world \<Rightarrow> string \<Rightarrow> string option \<Rightarrow> string option \<Rightarrow> string option \<Rightarrow> string option \<Rightarrow> json io" where
  "update_message w message_id name subject fromname fromemail =
     then_do (make_request w ''PUT'' (''/api/3/messages/'' @ message_id)
        (Some (JObj [(''message'', JObj (message_fields name subject fromname fromemail))])))
       (\<lambda>result. lift (construct w ''MessageResponse'' MessageResponse result))"

definition get_message :: "world \<Rightarrow> string \<Rightarrow> json io" where
  "get_message w message_id =
     then_do (make_request w ''GET'' (''/api/3/messages/'' @ message_id) None) (\<lambda>result.
       lift (construct w ''MessageResponse'' MessageResponse result))"

text \<open>\<^verbatim>\<open>try: ... except Exception as e: return {"status": "error", "message": str(e)}\<close>\<close>

definition status_error :: "json \<Rightarrow> json" where
  "status_error m = JObj [(''status'', JStr ''error''), (''message'', m)]"

definition or_status_error :: "json io \<Rightarrow> json io" where
  "or_status_error m = (\<lambda>log. case m log of
       (Inl e, log') \<Rightarrow> (Inr (status_error (JStr (str_exn e))), log')
     | (Inr d, log') \<Rightarrow> (Inr d, log'))"

text \<open>The dictionary \<^verbatim>\<open>health_check\<close> returns when the result of the API call has no \<^verbatim>\<open>"error"\<close>.\<close>

definition health_report :: "json \<Rightarrow> exn + json" where
  "health_report credentials =
     bind_res (dict_get credentials ''connection_id'' JNull) (\<lambda>connection_id.
     bind_res (dict_get credentials ''connection_config'' (JObj [])) (\<lambda>cc.
     bind_res (dict_get cc ''hostname'' JNull) (\<lambda>hostname.
     bind_res (dict_get credentials ''provider'' JNull) (\<lambda>provider.
       Inr (JObj [(''status'', JStr ''ok''),
                  (''message'', JStr ''API connection successful via Nango''),
                  (''connection_id'', connection_id),
                  (''hostname'', hostname),
                  (''provider'', provider)])))))"

definition health_check :: "world \<Rightarrow> json io" where
  "health_check w = or_status_error (
     then_do (get_connection_credentials w) (\<lambda>credentials.
     then_do (make_request w ''GET'' ''/api/3/users'' None) (\<lambda>result.
     lift (
       bind_res (py_contains ''error'' result) (\<lambda>has_error.
         if has_error then
           bind_res (py_getitem result ''error'') (\<lambda>m. Inr (status_error m))
         else health_report credentials)))))"

text \<open>The dictionary \<^verbatim>\<open>get_nango_connection_info\<close> builds from the broker's answer.\<close>

definition connection_info :: "json \<Rightarrow> exn + json" where
  "connection_info credentials =
     bind_res (dict_get credentials ''connection_id'' JNull) (\<lambda>connection_id.
     bind_res (dict_get credentials ''provider'' JNull) (\<lambda>provider.
     bind_res (dict_get credentials ''provider_config_key'' JNull) (\<lambda>provider_config_key.
     bind_res (dict_get credentials ''connection_config'' (JObj [])) (\<lambda>cc.
     bind_res (dict_get cc ''hostname'' JNull) (\<lambda>hostname.
     bind_res (dict_get credentials ''created_at'' JNull) (\<lambda>created_at.
     bind_res (dict_get credentials ''last_fetched_at'' JNull) (\<lambda>last_fetched_at.
     bind_res (dict_get credentials ''end_user'' (JObj [])) (\<lambda>end_user.
     bind_res (dict_get credentials ''credentials'' (JObj [])) (\<lambda>c1.
     bind_res (dict_get c1 ''apiKey'' JNull) (\<lambda>api_key.
     bind_res (dict_get credentials ''credentials'' (JObj [])) (\<lambda>c2.
     bind_res (dict_get c2 ''type'' JNull) (\<lambda>credential_type.
       Inr (JObj [(''status'', JStr ''success''),
                  (''connection_id'', connection_id),
                  (''provider'', provider),
                  (''provider_config_key'', provider_config_key),
                  (''hostname'', hostname),
                  (''created_at'', created_at),
                  (''last_fetched_at'', last_fetched_at),
                  (''end_user'', end_user),
                  (''has_api_key'', JBool (truthy api_key)),
                  (''credential_type'', credential_type)])))))))))))))"

definition get_nango_connection_info :: "world \<Rightarrow> json io" where
  "get_nango_connection_info w = or_status_error (
     then_do (get_connection_credentials w) (\<lambda>credentials.
       lift (connection_info credentials)))"

text \<open>The catalogue of tools, and one invocation of a tool from an empty call log.\<close>

datatype tool =
    Update_list_status_for_contact string string int
  | Get_custom_field_contact string
  | List_custom_field_values string
  | Get_list string
  | List_campaigns
  | List_automations
  | List_users
  | List_pipelines
  | List_messages
  | Get_deal string
  | List_deals
  | Create_an_account_note string string
  | Get_tag string
  | Get_campaign string
  | Get_pipeline string
  | Update_message string "string option" "string option" "string option" "string option"
  | Get_message string
  | Health_check
  | Get_nango_connection_info

fun run_tool :: "world \<Rightarrow> tool \<Rightarrow> json io" where
  "run_tool w (Update_list_status_for_contact c l s) = update_list_status_for_contact w c l s"
| "run_tool w (Get_custom_field_contact f) = get_custom_field_contact w f"
| "run_tool w (List_custom_field_values f) = list_custom_field_values w f"
| "run_tool w (Get_list l) = get_list w l"
| "run_tool w List_campaigns = list_campaigns w"
| "run_tool w List_automations = list_automations w"
| "run_tool w List_users = list_users w"
| "run_tool w List_pipelines = list_pipelines w"
| "run_tool w List_messages = list_messages w"
| "run_tool w (Get_deal d) = get_deal w d"
| "run_tool w List_deals = list_deals w"
| "run_tool w (Create_an_account_note a n) = create_an_account_note w a n"
| "run_tool w (Get_tag t) = get_tag w t"
| "run_tool w (Get_campaign c) = get_campaign w c"
| "run_tool w (Get_pipeline p) = get_pipeline w p"
| "run_tool w (Update_message m n s fn fe) = update_message w m n s fn fe"
| "run_tool w (Get_message m) = get_message w m"
| "run_tool w Health_check = health_check w"
| "run_tool w Get_nango_connection_info = get_nango_connection_info w"

definition invoke :: "world \<Rightarrow> tool \<Rightarrow> (exn + json) \<times> call list" where
  "invoke w t = run_tool w t []"


definition result :: "world \<Rightarrow> tool \<Rightarrow> exn + json" where
  "result w t = fst (invoke w t)"

definition trace :: "world \<Rightarrow> tool \<Rightarrow> call list" where
  "trace w t = snd (invoke w t)"

text \<open>The response model each tool declares as its return type; the two diagnostic tools return a plain dictionary.\<close>

fun response_model :: "tool \<Rightarrow> (string \<times> ftype) list option" where
  "response_model (Update_list_status_for_contact c l s) = Some ContactResponse"
| "response_model (Get_custom_field_contact f) = Some FieldValueResponse"
| "response_model (List_custom_field_values f) = Some FieldValueResponse"
| "response_model (Get_list l) = Some ListResponse"
| "response_model List_campaigns = Some CampaignResponse"
| "response_model List_automations = Some AutomationResponse"
| "response_model List_users = Some UserResponse"
| "response_model List_pipelines = Some PipelineResponse"
| "response_model List_messages = Some MessageResponse"
| "response_model (Get_deal d) = Some DealResponse"
| "response_model List_deals = Some DealResponse"
| "response_model (Create_an_account_note a n) = Some AccountResponse"
| "response_model (Get_tag t) = Some TagResponse"
| "response_model (Get_campaign c) = Some CampaignResponse"
| "response_model (Get_pipeline p) = Some PipelineResponse"
| "response_model (Update_message m n s fn fe) = Some MessageResponse"
| "response_model (Get_message m) = Some MessageResponse"
| "response_model Health_check = None"
| "response_model Get_nango_connection_info = None"

section \<open>Reading a call log\<close>

fun is_api :: "call \<Rightarrow> bool" where
  "is_api (Api q) = True"
| "is_api (Broker q) = False"

definition api_calls :: "call list \<Rightarrow> call list" where
  "api_calls log = filter is_api log"

definition broker_calls :: "call list \<Rightarrow> call list" where
  "broker_calls log = filter (\<lambda>c. \<not> is_api c) log"

section \<open>Vocabulary of the properties\<close>

text \<open>An envelope whose \<^verbatim>\<open>error\<close> field holds the message and whose other fields are unset.\<close>

definition error_envelope :: "(string \<times> ftype) list \<Rightarrow> string \<Rightarrow> json" where
  "error_envelope fs m = JObj (map (\<lambda>(n, t). (n, if n = ''error'' then JStr m else JNull)) fs)"

text \<open>
  The fields of a partial update as the specification words them: exactly the supplied
  parameters, each with its value.
\<close>

definition supplied_fields ::
  "string option \<Rightarrow> string option \<Rightarrow> string option \<Rightarrow> string option \<Rightarrow> (string \<times> json) list" where
  "supplied_fields name subject fromname fromemail =
     concat (map (\<lambda>(k, p). case p of None \<Rightarrow> [] | Some v \<Rightarrow> [(k, JStr v)])
       [(''name'', name), (''subject'', subject), (''fromname'', fromname),
        (''fromemail'', fromemail)])"

text \<open>The value at \<^verbatim>\<open>outer.inner\<close> of a decoded body, when there is one.\<close>

definition nested :: "json \<Rightarrow> string \<Rightarrow> string \<Rightarrow> json option" where
  "nested j outer inner =
     (case j of
        JObj kvs \<Rightarrow>
          (case map_of kvs outer of
             Some (JObj kvs') \<Rightarrow> map_of kvs' inner
           | _ \<Rightarrow> None)
      | _ \<Rightarrow> None)"

text \<open>
  A status dictionary: \<^verbatim>\<open>"status"\<close> is \<open>good\<close>, or it is \<^verbatim>\<open>"error"\<close> and a
  \<^verbatim>\<open>"message"\<close> comes with it.
\<close>

definition status_dictionary :: "string \<Rightarrow> json \<Rightarrow> bool" where
  "status_dictionary good j =
     (case j of
        JObj kvs \<Rightarrow>
          map_of kvs ''status'' = Some (JStr good) \<or>
          (map_of kvs ''status'' = Some (JStr ''error'') \<and>
           (case map_of kvs ''message'' of Some m \<Rightarrow> True | None \<Rightarrow> False))
      | _ \<Rightarrow> False)"

text \<open>The value under \<^verbatim>\<open>"status"\<close> of a returned dictionary.\<close>

definition status_of :: "json \<Rightarrow> json" where
  "status_of j =
     (case j of
        JObj kvs \<Rightarrow> (case map_of kvs ''status'' of Some v \<Rightarrow> v | None \<Rightarrow> JNull)
      | _ \<Rightarrow> JNull)"

text \<open>
  Success of a diagnostic tool: its calls returned without an exception, the result of the
  API call holds no \<^verbatim>\<open>"error"\<close>, and the broker's answer could be read.
\<close>

definition health_check_succeeds :: "world \<Rightarrow> bool" where
  "health_check_succeeds w =
     (case get_connection_credentials w [] of
        (Inl e, l1) \<Rightarrow> False
      | (Inr credentials, l1) \<Rightarrow>
          (case make_request w ''GET'' ''/api/3/users'' None l1 of
             (Inl e, l2) \<Rightarrow> False
           | (Inr res, l2) \<Rightarrow>
               py_contains ''error'' res = Inr False \<and>
               (case health_report credentials of Inl e \<Rightarrow> False | Inr d \<Rightarrow> True)))"

definition connection_info_succeeds :: "world \<Rightarrow> bool" where
  "connection_info_succeeds w =
     (case get_connection_credentials w [] of
        (Inl e, l) \<Rightarrow> False
      | (Inr credentials, l) \<Rightarrow>
          (case connection_info credentials of Inl e \<Rightarrow> False | Inr d \<Rightarrow> True))"

section \<open>Example worlds\<close>

definition example_env :: "string \<Rightarrow> string option" where
  "example_env k =
     (if k = ''NANGO_CONNECTION_ID'' then Some ''conn-1''
      else if k = ''NANGO_INTEGRATION_ID'' then Some ''activecampaign''
      else if k = ''NANGO_BASE_URL'' then Some ''https://broker.test''
      else if k = ''NANGO_SECRET_KEY'' then Some ''s3cret''
      else None)"

definition example_credentials :: json where
  "example_credentials =
     JObj [(''connection_id'', JStr ''conn-1''),
           (''provider'', JStr ''activecampaign''),
           (''credentials'', JObj [(''type'', JStr ''API_KEY''), (''apiKey'', JStr ''key-1'')]),
           (''connection_config'', JObj [(''hostname'', JStr ''acme.api-us1.com'')])]"

definition answers :: "nat \<Rightarrow> string \<Rightarrow> json \<Rightarrow> outcome" where
  "answers code msg j = Answers \<lparr> status_code = code, error_text = msg, body = Inr j \<rparr>"

text \<open>
  The broker answers every call with \<open>creds\<close>, the target API answers every call with
  \<open>api\<close>; all four environment variables are set.
\<close>

definition example_world :: "json \<Rightarrow> outcome \<Rightarrow> world" where
  "example_world creds api =
     \<lparr> environ = example_env,
       network = (\<lambda>n c. case c of Broker q \<Rightarrow> answers 200 [] creds | Api q \<Rightarrow> api),
       format_value = (\<lambda>v. []),
       coerce = (\<lambda>t v. None),
       unicode_upper = (\<lambda>s. s) \<rparr>"

text \<open>The target API answers 404 to every call.\<close>

definition not_found_world :: world where
  "not_found_world = example_world example_credentials
     (Answers \<lparr> status_code = 404, error_text = ''404 Client Error: Not Found'',
                body = Inr (JObj [(''message'', JStr ''No Result found'')]) \<rparr>)"

text \<open>The target API answers 300 with a JSON body to every call.\<close>

definition multiple_choices_world :: world where
  "multiple_choices_world = example_world example_credentials
     (answers 300 ''300 Multiple Choices'' (JObj [(''deal'', JObj [(''id'', JStr ''7'')])]))"

text \<open>The broker's answer has no \<^verbatim>\<open>credentials\<close> entry.\<close>

definition keyless_credentials :: json where
  "keyless_credentials =
     JObj [(''connection_config'', JObj [(''hostname'', JStr ''acme.api-us1.com'')])]"

text \<open>The target API answers 200 with an empty list of users, or 500, to every call.\<close>

definition users_world :: world where
  "users_world = example_world example_credentials (answers 200 [] (JObj [(''users'', JArr [])]))"

definition server_error_world :: world where
  "server_error_world = example_world example_credentials
     (Answers \<lparr> status_code = 500, error_text = ''500 Server Error: Internal Server Error'',
                body = Inr (JObj []) \<rparr>)"

text \<open>The calls these worlds see.\<close>

definition users_request :: request where
  "users_request =
     \<lparr> verb = GET, url = ''https://acme.api-us1.com/api/3/users'',
       headers = [(''Api-Token'', JStr ''key-1''), (''Content-Type'', JStr ''application/json''),
                  (''Accept'', JStr ''application/json'')],
       params = [], json_body = None, timeout = Some 30 \<rparr>"

definition example_broker_call :: call where
  "example_broker_call =
     Broker (broker_request ''conn-1'' ''activecampaign'' ''https://broker.test'' ''s3cret'')"

definition update_subject_request :: request where
  "update_subject_request =
     \<lparr> verb = PUT, url = ''https://acme.api-us1.com/api/3/messages/42'',
       headers = [(''Api-Token'', JStr ''key-1''), (''Content-Type'', JStr ''application/json''),
                  (''Accept'', JStr ''application/json'')],
       params = [],
       json_body = Some (JObj [(''message'', JObj [(''subject'', JStr ''Hi'')])]),
       timeout = Some 30 \<rparr>"

text \<open>No environment variable is set.\<close>

definition unconfigured_world :: world where
  "unconfigured_world =
     (example_world example_credentials (answers 200 [] (JObj [])))\<lparr> environ := (\<lambda>k. None) \<rparr>"

text \<open>The broker answers its first \<open>k\<close> calls with key and hostname, the later ones without key.\<close>

definition keyless_after :: "nat \<Rightarrow> world" where
  "keyless_after k =
     (example_world example_credentials (answers 200 [] (JObj [])))
       \<lparr> network := (\<lambda>n c. case c of
            Broker q \<Rightarrow> answers 200 [] (if n < k then example_credentials else keyless_credentials)
          | Api q \<Rightarrow> answers 200 [] (JObj [])) \<rparr>"

text \<open>
  The method string p, o, long s (U+017F, the bytes C5 BF), t, in a world whose Unicode
  table upper-cases it to POST as the interpreter does.
\<close>

definition long_s_post :: string where
  "long_s_post = [CHR ''p'', CHR ''o'', CHR 0xC5, CHR 0xBF, CHR ''t'']"

definition long_s_world :: world where
  "long_s_world =
     (example_world example_credentials (answers 200 [] (JObj [])))
       \<lparr> unicode_upper := (\<lambda>s. if s = long_s_post then ''POST'' else s) \<rparr>"

definition example_config :: "string \<times> json" where
  "example_config = (''https://acme.api-us1.com'', JStr ''key-1'')"

definition no_key_failure :: exn where
  "no_key_failure = ValueError (''Failed to get ActiveCampaign config from Nango: '' @
                                ''API key not found in Nango credentials'')"

definition no_environment_failure :: exn where
  "no_environment_failure =
     ValueError (''Failed to get ActiveCampaign config from Nango: '' @
                 ''Missing required Nango environment variables'')"

section \<open>How a call proceeds\<close>

lemma then_do_lift_log: "snd (then_do m (\<lambda>r. lift (f r)) log) = snd (m log)"
  by (auto simp: then_do_def lift_def split: prod.splits sum.splits)

lemma or_status_error_log: "snd (or_status_error m log) = snd (m log)"
  by (auto simp: or_status_error_def split: prod.splits sum.splits)

lemma perform_log: "snd (perform w c log) = log @ [c]"
  by (simp add: perform_def)

lemma credentials_cases:
  "get_connection_credentials w log =
     (Inl (ValueError ''Missing required Nango environment variables''), log) \<or>
   (\<exists>q. get_connection_credentials w log = perform w (Broker q) log)"
  by (auto simp: get_connection_credentials_def lift_def split: option.splits)

lemma credentials_returned:
  "get_connection_credentials w log = (Inr j, l) \<Longrightarrow> \<exists>q. l = log @ [Broker q]"
  using credentials_cases[of w log] perform_log[of w _ log]
  by (metis Inl_Inr_False fst_conv snd_conv)

lemma credentials_again:
  "get_connection_credentials w log = (Inr j, l) \<Longrightarrow>
   \<exists>q. get_connection_credentials w log' = perform w (Broker q) log'"
  by (auto simp: get_connection_credentials_def lift_def split: option.splits if_splits)

lemma credentials_log:
  "snd (get_connection_credentials w log) = log \<or>
   (\<exists>q. snd (get_connection_credentials w log) = log @ [Broker q])"
  using credentials_cases[of w log] by (auto simp: perform_log)

lemma config_log:
  "snd (get_activecampaign_config w log) = snd (get_connection_credentials w log)"
  by (auto simp: get_activecampaign_config_def split: prod.splits sum.splits)

lemma config_raises_ValueError:
  "get_activecampaign_config w log = (Inl e, l) \<Longrightarrow> \<exists>m. e = ValueError m"
  by (auto simp: get_activecampaign_config_def config_failure_def split: prod.splits sum.splits)

lemma config_returned:
  "get_activecampaign_config w log = (Inr cfg, l) \<Longrightarrow>
   \<exists>j. get_connection_credentials w log = (Inr j, l) \<and> extract_config w j = Inr cfg"
  by (auto simp: get_activecampaign_config_def split: prod.splits sum.splits)

lemma headers_log:
  "snd (get_headers w log) = snd (get_connection_credentials w log)"
  by (auto simp: get_headers_def then_do_def lift_def config_log[symmetric]
           split: prod.splits sum.splits)

lemma headers_raises_ValueError:
  "get_headers w log = (Inl e, l) \<Longrightarrow> \<exists>m. e = ValueError m"
  using config_raises_ValueError[of w log e]
  by (auto simp: get_headers_def then_do_def lift_def split: prod.splits sum.splits)

lemma headers_returned:
  "get_headers w log = (Inr hs, l) \<Longrightarrow>
   \<exists>u k. get_activecampaign_config w log = (Inr (u, k), l) \<and>
     hs = [(''Api-Token'', k), (''Content-Type'', JStr ''application/json''),
           (''Accept'', JStr ''application/json'')]"
  by (auto simp: get_headers_def then_do_def lift_def split: prod.splits sum.splits)

text \<open>The four ways through \<^verbatim>\<open>make_request\<close>.\<close>

lemma make_request_cases:
  obtains
    (config_fails) m l where
      "get_activecampaign_config w log = (Inl (ValueError m), l)"
      "make_request w method endpoint d log = (Inl (ValueError m), l)"
      "l = log \<or> (\<exists>q. l = log @ [Broker q])"
  | (headers_fail) u k q1 m q2 where
      "get_activecampaign_config w log = (Inr (u, k), log @ [Broker q1])"
      "get_headers w (log @ [Broker q1]) = (Inl (ValueError m), log @ [Broker q1, Broker q2])"
      "make_request w method endpoint d log = (Inl (ValueError m), log @ [Broker q1, Broker q2])"
  | (unsupported) u k q1 hs q2 where
      "get_activecampaign_config w log = (Inr (u, k), log @ [Broker q1])"
      "get_headers w (log @ [Broker q1]) = (Inr hs, log @ [Broker q1, Broker q2])"
      "api_request w method (rstrip_slash u @ endpoint) hs d = None"
      "make_request w method endpoint d log =
         (Inl (ValueError (''Unsupported HTTP method: '' @ method)), log @ [Broker q1, Broker q2])"
  | (sent) u k q1 hs q2 q where
      "get_activecampaign_config w log = (Inr (u, k), log @ [Broker q1])"
      "get_headers w (log @ [Broker q1]) = (Inr hs, log @ [Broker q1, Broker q2])"
      "api_request w method (rstrip_slash u @ endpoint) hs d = Some q"
      "make_request w method endpoint d log =
         (handle_request_exception (fst (perform w (Api q) (log @ [Broker q1, Broker q2]))),
          log @ [Broker q1, Broker q2, Api q])"
proof (cases "get_activecampaign_config w log")
  case (Pair r1 l1)
  note P1 = this
  show ?thesis
  proof (cases r1)
    case (Inl e)
    then obtain m where "e = ValueError m" using config_raises_ValueError P1 by blast
    moreover have "l1 = log \<or> (\<exists>q. l1 = log @ [Broker q])"
      using credentials_log[of w log] config_log[of w log] P1 by simp
    ultimately show ?thesis
      using config_fails[of m l1] P1 Inl by (simp add: make_request_def then_do_def)
  next
    case (Inr cfg)
    obtain u k where cfg: "cfg = (u, k)" by (cases cfg)
    obtain q1 where l1: "l1 = log @ [Broker q1]"
      using config_returned credentials_returned P1 Inr by blast
    show ?thesis
    proof (cases "get_headers w l1")
      case (Pair r2 l2)
      note P2 = this
      show ?thesis
      proof (cases r2)
        case (Inl e)
        then obtain m where m: "e = ValueError m" using headers_raises_ValueError P2 by blast
        obtain j where "get_connection_credentials w log = (Inr j, l1)"
          using config_returned P1 \<open>r1 = Inr cfg\<close> by blast
        then obtain q2 where "get_connection_credentials w l1 = perform w (Broker q2) l1"
          using credentials_again by blast
        then have "l2 = l1 @ [Broker q2]"
          using headers_log[of w l1] P2 by (simp add: perform_log)
        then show ?thesis
          using headers_fail[of u k q1 m q2] P1 \<open>r1 = Inr cfg\<close> cfg l1 P2 Inl m
          by (simp add: make_request_def then_do_def)
      next
        case (Inr hs)
        obtain q2 where l2: "l2 = l1 @ [Broker q2]"
          using headers_returned config_returned credentials_returned P2 Inr by blast
        show ?thesis
        proof (cases "api_request w method (rstrip_slash u @ endpoint) hs d")
          case None
          then show ?thesis
            using unsupported[of u k q1 hs q2] P1 \<open>r1 = Inr cfg\<close> cfg l1 P2 Inr l2
            by (simp add: make_request_def then_do_def send_def lift_def
                  handle_request_exception_def)
        next
          case (Some q)
          then show ?thesis
            using sent[of u k q1 hs q2 q] P1 \<open>r1 = Inr cfg\<close> cfg l1 P2 Inr l2
            by (simp add: make_request_def then_do_def send_def perform_def)
        qed
      qed
    qed
  qed
qed

lemmas tool_defs =
  update_list_status_for_contact_def get_custom_field_contact_def
  list_custom_field_values_def get_list_def list_campaigns_def list_automations_def
  list_users_def list_pipelines_def list_messages_def get_deal_def list_deals_def
  create_an_account_note_def get_tag_def get_campaign_def get_pipeline_def
  update_message_def get_message_def

lemma make_request_log:
  "\<exists>q1 q2 q3. snd (make_request w method endpoint d log) \<in>
     {log, log @ [Broker q1], log @ [Broker q1, Broker q2],
      log @ [Broker q1, Broker q2, Api q3]}"
  by (cases rule: make_request_cases[of w log "method" endpoint d]) auto

lemma envelope_tool:
  "response_model t = Some C \<Longrightarrow>
   \<exists>method endpoint d cls. run_tool w t =
     then_do (make_request w method endpoint d) (\<lambda>r. lift (construct w cls C r))"
  by (cases t) (auto simp: tool_defs)

lemma diagnostic_tool:
  "response_model t = None \<Longrightarrow> t = Health_check \<or> t = Get_nango_connection_info"
  by (cases t) auto

lemma health_check_log:
  "snd (health_check w []) = snd (get_connection_credentials w []) \<or>
   (\<exists>q. snd (health_check w []) = snd (make_request w ''GET'' ''/api/3/users'' None [Broker q]))"
proof (cases "get_connection_credentials w []")
  case (Pair r l)
  show ?thesis
  proof (cases r)
    case (Inl e)
    then show ?thesis using Pair
      by (simp add: health_check_def or_status_error_log then_do_def)
  next
    case (Inr j)
    then obtain q where "l = [Broker q]" using credentials_returned[of w "[]" j l] Pair by auto
    then have "snd (health_check w []) =
        snd (make_request w ''GET'' ''/api/3/users'' None [Broker q])"
      using Pair Inr
      by (simp add: health_check_def or_status_error_log then_do_def lift_def
               split: prod.splits sum.splits)
    then show ?thesis by blast
  qed
qed

lemma nango_info_log:
  "snd (get_nango_connection_info w []) = snd (get_connection_credentials w [])"
  by (simp add: get_nango_connection_info_def or_status_error_log then_do_lift_log)

section \<open>Network calls per tool invocation\<close>

text \<open>
  C1 (as amended): every tool invocation calls the broker first and the target API last, and
  calls the target API at most once. A tool that goes through \<^verbatim>\<open>make_request\<close> calls the
  broker at most twice, \<^verbatim>\<open>health_check\<close> at most three times and
  \<^verbatim>\<open>get_nango_connection_info\<close> at most once; whenever the target API is called, the
  credential resolver has run exactly twice inside \<^verbatim>\<open>make_request\<close> (and once more before
  it in \<^verbatim>\<open>health_check\<close>), so three or four calls are made, not two.
\<close>

theorem tool_round_trips:
  "trace w t = broker_calls (trace w t) @ api_calls (trace w t) \<and>
   length (api_calls (trace w t)) \<le> 1 \<and>
   length (broker_calls (trace w t)) \<le>
     (if t = Health_check then 3 else if t = Get_nango_connection_info then 1 else 2) \<and>
   (api_calls (trace w t) \<noteq> [] \<longrightarrow>
      length (broker_calls (trace w t)) = (if t = Health_check then 3 else 2))"
proof (cases "response_model t")
  case (Some C)
  then obtain mth endpoint d where
    "trace w t = snd (make_request w mth endpoint d [])"
    using envelope_tool[of t C w] by (auto simp: trace_def invoke_def then_do_lift_log)
  moreover have "t \<noteq> Health_check" "t \<noteq> Get_nango_connection_info" using Some by auto
  ultimately show ?thesis
    using make_request_log[of w mth endpoint d "[]"]
    by (auto simp: api_calls_def broker_calls_def)
next
  case None
  then consider (h) "t = Health_check" | (n) "t = Get_nango_connection_info"
    using diagnostic_tool by blast
  then show ?thesis
  proof cases
    case n
    then show ?thesis
      using nango_info_log[of w] credentials_log[of w "[]"]
      by (auto simp: trace_def invoke_def api_calls_def broker_calls_def)
  next
    case h
    from health_check_log[of w] show ?thesis
    proof
      assume "snd (health_check w []) = snd (get_connection_credentials w [])"
      then show ?thesis
        using credentials_log[of w "[]"] h
        by (auto simp: trace_def invoke_def api_calls_def broker_calls_def)
    next
      assume "\<exists>q. snd (health_check w []) =
                  snd (make_request w ''GET'' ''/api/3/users'' None [Broker q])"
      then obtain q where
        "snd (health_check w []) = snd (make_request w ''GET'' ''/api/3/users'' None [Broker q])"
        by blast
      then show ?thesis
        using make_request_log[of w "''GET''" "''/api/3/users''" None "[Broker q]"] h
        by (auto simp: trace_def invoke_def api_calls_def broker_calls_def)
    qed
  qed
qed

theorem tool_round_trips_witness:
  "api_calls (trace (example_world example_credentials (answers 200 [] (JObj []))) (Get_deal ''7'')) \<noteq> [] \<and>
   length (broker_calls (trace (example_world example_credentials (answers 200 [] (JObj []))) (Get_deal ''7''))) = 2"
proof -
  have h: "api_calls (trace (example_world example_credentials (answers 200 [] (JObj []))) (Get_deal ''7'')) \<noteq> []"
    by code_simp
  show ?thesis
    using h tool_round_trips[of "example_world example_credentials (answers 200 [] (JObj []))" "Get_deal ''7''"]
    by simp
qed

theorem two_round_trips_counterexample:
  "length (trace (example_world example_credentials (answers 200 [] (JObj []))) (Get_deal ''7'')) = 3 \<and>
   length (broker_calls (trace (example_world example_credentials (answers 200 [] (JObj []))) (Get_deal ''7''))) = 2"
  by code_simp

section \<open>Unsupported verbs\<close>

lemma api_request_unsupported:
  "upper w method \<notin> {''GET'', ''POST'', ''PUT'', ''DELETE''} \<Longrightarrow>
   api_request w method u hs d = None"
  by (simp add: api_request_def)

lemma long_s_method_is_post:
  "api_calls (snd (make_request long_s_world long_s_post ''/api/3/notes'' None [])) =
     [Api \<lparr> verb = POST, url = ''https://acme.api-us1.com/api/3/notes'',
            headers = [(''Api-Token'', JStr ''key-1''), (''Content-Type'', JStr ''application/json''),
                       (''Accept'', JStr ''application/json'')],
            params = [], json_body = None, timeout = Some 30 \<rparr>]"
  by code_simp

text \<open>
  C3 (as amended): for every method string that \<^verbatim>\<open>method.upper()\<close> turns into none of
  GET, POST, PUT, DELETE, \<^verbatim>\<open>make_request\<close> fails with a \<^verbatim>\<open>ValueError\<close> and makes no call
  to the target API; it resolves the configuration first, so up to two calls to the broker
  are made, and once both resolutions succeed the error is the unsupported-method one.
\<close>

theorem unsupported_method:
  assumes "upper w method \<notin> {''GET'', ''POST'', ''PUT'', ''DELETE''}"
  shows "(\<exists>m. fst (make_request w method endpoint d log) = Inl (ValueError m)) \<and>
         api_calls (snd (make_request w method endpoint d log)) = api_calls log \<and>
         length (broker_calls (snd (make_request w method endpoint d log)))
           \<le> length (broker_calls log) + 2 \<and>
         (\<forall>cfg l1 hs l2.
            get_activecampaign_config w log = (Inr cfg, l1) \<longrightarrow>
            get_headers w l1 = (Inr hs, l2) \<longrightarrow>
            make_request w method endpoint d log =
              (Inl (ValueError (''Unsupported HTTP method: '' @ method)), l2))"
proof (cases rule: make_request_cases[of w log "method" endpoint d])
  case (config_fails m l)
  then show ?thesis by (auto simp: api_calls_def broker_calls_def)
next
  case (headers_fail u k q1 m q2)
  then show ?thesis by (auto simp: api_calls_def broker_calls_def)
next
  case (unsupported u k q1 hs q2)
  then show ?thesis by (auto simp: api_calls_def broker_calls_def)
next
  case (sent u k q1 hs q2 q)
  then show ?thesis using api_request_unsupported[OF assms] by simp
qed

theorem unsupported_method_witness:
  "upper (example_world example_credentials (answers 200 [] (JObj []))) ''PATCH''
     \<notin> {''GET'', ''POST'', ''PUT'', ''DELETE''} \<and>
   api_calls (snd (make_request (example_world example_credentials (answers 200 [] (JObj [])))
      ''PATCH'' ''/api/3/users'' None [])) = api_calls []"
proof -
  have h: "upper (example_world example_credentials (answers 200 [] (JObj []))) ''PATCH''
      \<notin> {''GET'', ''POST'', ''PUT'', ''DELETE''}"
    by (simp add: upper_def upper_char_def)
  show ?thesis
    using h unsupported_method[OF h, of "''/api/3/users''" None "[]"]
    by blast
qed

theorem unsupported_method_counterexample:
  "fst (make_request (example_world example_credentials (answers 200 [] (JObj [])))
      ''PATCH'' ''/api/3/users'' None []) = Inl (ValueError ''Unsupported HTTP method: PATCH'') \<and>
   length (broker_calls (snd (make_request (example_world example_credentials (answers 200 [] (JObj [])))
      ''PATCH'' ''/api/3/users'' None []))) = 2"
  by code_simp

section \<open>Broker answers without key or hostname\<close>

lemma extract_config_lacking:
  "nested j ''credentials'' ''apiKey'' = None \<or> nested j ''connection_config'' ''hostname'' = None
   \<Longrightarrow> \<exists>e. extract_config w j = Inl e"
  by (cases j)
     (auto simp: nested_def extract_config_def bind_res_def
           split: option.splits json.splits sum.splits)

lemma config_lacking:
  assumes "get_connection_credentials w log = (Inr j, l)"
    and "nested j ''credentials'' ''apiKey'' = None \<or> nested j ''connection_config'' ''hostname'' = None"
  shows "\<exists>m. get_activecampaign_config w log = (Inl (ValueError m), l)"
  using assms(1) extract_config_lacking[OF assms(2), of w]
  by (auto simp: get_activecampaign_config_def config_failure_def)

text \<open>
  C7: when the body the broker returns lacks \<^verbatim>\<open>credentials.apiKey\<close> or
  \<^verbatim>\<open>connection_config.hostname\<close>, \<^verbatim>\<open>get_activecampaign_config\<close> fails with a
  \<^verbatim>\<open>ValueError\<close>, and so does \<^verbatim>\<open>make_request\<close>, without any call to the target API;
  this holds for the answer to its first resolution and for the answer to the second one
  (through \<^verbatim>\<open>get_headers\<close>).
\<close>

theorem missing_credentials:
  assumes "nested j ''credentials'' ''apiKey'' = None \<or>
           nested j ''connection_config'' ''hostname'' = None"
  shows "(get_connection_credentials w log = (Inr j, l) \<longrightarrow>
            (\<exists>m. get_activecampaign_config w log = (Inl (ValueError m), l)) \<and>
            (\<exists>m. make_request w method endpoint d log = (Inl (ValueError m), l)) \<and>
            api_calls l = api_calls log) \<and>
         (get_activecampaign_config w log = (Inr cfg, l1) \<longrightarrow>
          get_connection_credentials w l1 = (Inr j, l2) \<longrightarrow>
            (\<exists>m. make_request w method endpoint d log = (Inl (ValueError m), l2)) \<and>
            api_calls l2 = api_calls log)"
proof (intro conjI impI)
  assume a: "get_connection_credentials w log = (Inr j, l)"
  from config_lacking[OF a assms]
  obtain m where m: "get_activecampaign_config w log = (Inl (ValueError m), l)" by blast
  show "\<exists>m. get_activecampaign_config w log = (Inl (ValueError m), l)" using m by blast
  show "\<exists>m. make_request w method endpoint d log = (Inl (ValueError m), l)"
    using m by (simp add: make_request_def then_do_def)
  show "api_calls l = api_calls log"
    using credentials_returned[OF a] by (auto simp: api_calls_def)
next
  assume a: "get_activecampaign_config w log = (Inr cfg, l1)"
    and b: "get_connection_credentials w l1 = (Inr j, l2)"
  obtain u k where cfg: "cfg = (u, k)" by (cases cfg)
  from config_lacking[OF b assms]
  obtain m where m: "get_activecampaign_config w l1 = (Inl (ValueError m), l2)" by blast
  then have h: "get_headers w l1 = (Inl (ValueError m), l2)"
    by (simp add: get_headers_def then_do_def)
  show "\<exists>m. make_request w method endpoint d log = (Inl (ValueError m), l2)"
    using a cfg h by (simp add: make_request_def then_do_def)
  obtain j0 where "get_connection_credentials w log = (Inr j0, l1)"
    using config_returned[OF a] by blast
  then show "api_calls l2 = api_calls log"
    using credentials_returned[OF b] credentials_returned[of w log j0 l1]
    by (auto simp: api_calls_def)
qed

theorem missing_credentials_witness:
  "(nested keyless_credentials
      ''credentials'' ''apiKey'' = None \<or>
    nested keyless_credentials
      ''connection_config'' ''hostname'' = None) \<and>
   fst (get_connection_credentials
     (example_world keyless_credentials
        (answers 200 [] (JObj []))) []) =
     Inr keyless_credentials \<and>
   (\<exists>m. fst (make_request
     (example_world keyless_credentials
        (answers 200 [] (JObj []))) ''GET'' ''/api/3/deals'' None []) = Inl (ValueError m))"
proof -
  let ?j = "keyless_credentials"
  let ?w = "example_world ?j (answers 200 [] (JObj []))"
  have h: "nested ?j ''credentials'' ''apiKey'' = None \<or>
           nested ?j ''connection_config'' ''hostname'' = None"
    by (simp add: nested_def keyless_credentials_def)
  have g: "get_connection_credentials ?w [] =
     (Inr ?j, snd (get_connection_credentials ?w []))"
    by code_simp
  show ?thesis
    using h g missing_credentials[OF h, of ?w "[]" "snd (get_connection_credentials ?w [])"
       "''GET''" "''/api/3/deals''" None]
    by (metis fst_conv)
qed

section \<open>Error statuses of the target API\<close>

lemmas model_defs =
  ContactResponse_def CampaignResponse_def ListResponse_def DealResponse_def
  AccountResponse_def TagResponse_def MessageResponse_def UserResponse_def
  PipelineResponse_def FieldValueResponse_def AutomationResponse_def

lemma construct_error_result:
  "response_model t = Some C \<Longrightarrow>
   construct w cls C (error_result m c) = Inr (error_envelope C m)"
  by (cases t) (auto simp: construct_def error_result_def error_envelope_def model_defs)

lemma make_request_sent:
  assumes "snd (make_request w method endpoint d []) = [Broker q1, Broker q2, Api q]"
  shows "fst (make_request w method endpoint d []) =
           handle_request_exception (fst (perform w (Api q) [Broker q1, Broker q2]))"
  using assms
  by (cases rule: make_request_cases[of w "[]" "method" endpoint d]) auto

lemma envelope_tool_result:
  assumes "run_tool w t = then_do (make_request w method endpoint d) (\<lambda>r. lift (construct w cls C r))"
    and "fst (make_request w method endpoint d []) = Inr r"
  shows "result w t = construct w cls C r"
  using assms
  by (cases "make_request w method endpoint d []")
     (simp add: result_def invoke_def then_do_def lift_def)

text \<open>
  C4 (as amended): when the target API answers the call of \<^verbatim>\<open>make_request\<close> with a 4xx
  or 5xx status (for instance 404), \<^verbatim>\<open>make_request\<close> returns the dictionary
  \<^verbatim>\<open>{"error": message, "status_code": status}\<close> instead of raising, and the envelope of
  the invoking tool has its \<^verbatim>\<open>error\<close> field set to that message and every other field
  unset.
\<close>

theorem api_error_status:
  assumes "network w 2 (Api q) = Answers r"
    and "400 \<le> status_code r" and "status_code r < 600"
  shows "(snd (make_request w method endpoint d []) = [Broker q1, Broker q2, Api q] \<longrightarrow>
            fst (make_request w method endpoint d []) =
              Inr (error_result (error_text r) (Some (status_code r)))) \<and>
         (response_model t = Some C \<longrightarrow> trace w t = [Broker q1, Broker q2, Api q] \<longrightarrow>
            result w t = Inr (error_envelope C (error_text r)))"
proof -
  have caught: "handle_request_exception (fst (perform w (Api q) [Broker q1, Broker q2])) =
      Inr (error_result (error_text r) (Some (status_code r)))"
    using assms
    by (simp add: perform_def raise_for_status_def handle_request_exception_def numeral_2_eq_2)
  have executor: "fst (make_request w mth ep b []) =
      Inr (error_result (error_text r) (Some (status_code r)))"
    if "snd (make_request w mth ep b []) = [Broker q1, Broker q2, Api q]" for mth ep b
    using make_request_sent[OF that] caught by simp
  have tool: "result w t = Inr (error_envelope C (error_text r))"
    if C: "response_model t = Some C" and tr: "trace w t = [Broker q1, Broker q2, Api q]"
  proof -
    obtain mth ep b cls where
      shape: "run_tool w t = then_do (make_request w mth ep b) (\<lambda>r. lift (construct w cls C r))"
      using envelope_tool[OF C] by blast
    then have "snd (make_request w mth ep b []) = [Broker q1, Broker q2, Api q]"
      using tr by (simp add: trace_def invoke_def then_do_lift_log)
    then have "fst (make_request w mth ep b []) =
        Inr (error_result (error_text r) (Some (status_code r)))"
      by (rule executor)
    then show ?thesis
      using envelope_tool_result[OF shape] construct_error_result[OF C] by simp
  qed
  show ?thesis using executor tool by blast
qed

theorem api_error_status_witness:
  "fst (make_request not_found_world
     ''GET'' ''/api/3/deals/7'' None []) =
     Inr (JObj [(''error'', JStr ''404 Client Error: Not Found''), (''status_code'', JInt 404)]) \<and>
   result not_found_world (Get_deal ''7'') =
     Inr (JObj [(''deal'', JNull), (''deals'', JNull), (''error'', JStr ''404 Client Error: Not Found'')])"
proof -
  let ?q = "\<lparr> verb = GET, url = ''https://acme.api-us1.com/api/3/deals/7'',
       headers = [(''Api-Token'', JStr ''key-1''), (''Content-Type'', JStr ''application/json''),
                  (''Accept'', JStr ''application/json'')],
       params = [], json_body = None, timeout = Some 30 \<rparr>"
  let ?b = "broker_request ''conn-1'' ''activecampaign'' ''https://broker.test'' ''s3cret''"
  let ?r = "\<lparr> status_code = 404, error_text = ''404 Client Error: Not Found'',
                  body = Inr (JObj [(''message'', JStr ''No Result found'')]) \<rparr>"
  have n: "network not_found_world 2 (Api ?q) = Answers ?r"
    by (simp add: not_found_world_def example_world_def)
  have lo: "400 \<le> status_code ?r" and hi: "status_code ?r < 600" by simp_all
  have s: "snd (make_request not_found_world ''GET'' ''/api/3/deals/7'' None []) = [Broker ?b, Broker ?b, Api ?q]"
    by code_simp
  have t: "trace not_found_world (Get_deal ''7'') = [Broker ?b, Broker ?b, Api ?q]"
    by code_simp
  have m: "response_model (Get_deal ''7'') = Some DealResponse" by simp
  show ?thesis
    using api_error_status[OF n lo hi, of "''GET''" "''/api/3/deals/7''" None ?b ?b
        "Get_deal ''7''" DealResponse] s t m
    by (simp add: error_result_def error_envelope_def DealResponse_def)
qed

theorem non_2xx_counterexample:
  "fst (make_request multiple_choices_world ''GET'' ''/api/3/deals/7'' None []) =
     Inr (JObj [(''deal'', JObj [(''id'', JStr ''7'')])]) \<and>
   result multiple_choices_world (Get_deal ''7'') =
     Inr (JObj [(''deal'', JObj [(''title'', JNull), (''value'', JNull), (''currency'', JNull),
                                 (''status'', JNull), (''id'', JStr ''7'')]),
                (''deals'', JNull), (''error'', JNull)])"
  by code_simp

section \<open>Partial update of a message\<close>

lemma upper_verbs:
  "upper w ''GET'' = ''GET''" "upper w ''POST'' = ''POST''" "upper w ''PUT'' = ''PUT''"
  by (simp_all add: upper_def upper_char_def)

lemma make_request_api_call:
  assumes "Api q \<in> set (snd (make_request w method endpoint d []))"
  shows "\<exists>u hs. api_request w method (u @ endpoint) hs d = Some q"
  using assms
  by (cases rule: make_request_cases[of w "[]" "method" endpoint d]) auto

lemma message_fields_supplied:
  "message_fields name subject fromname fromemail =
   supplied_fields name subject fromname fromemail"
  by (cases name; cases subject; cases fromname; cases fromemail)
     (simp_all add: message_fields_def supplied_fields_def)

lemma message_fields_lookup:
  "map_of (message_fields name subject fromname fromemail) k =
     (if k = ''name'' then map_option JStr name
      else if k = ''subject'' then map_option JStr subject
      else if k = ''fromname'' then map_option JStr fromname
      else if k = ''fromemail'' then map_option JStr fromemail
      else None)"
  by (cases name; cases subject; cases fromname; cases fromemail)
     (simp_all add: message_fields_def)

lemma make_request_resolved:
  assumes "get_activecampaign_config w log = (Inr (u, k), l1)"
    and "get_headers w l1 = (Inr hs, l2)"
    and "api_request w method (rstrip_slash u @ endpoint) hs d = Some q"
  shows "snd (make_request w method endpoint d log) = l2 @ [Api q]"
  using assms by (simp add: make_request_def then_do_def send_def perform_def)

text \<open>
  C5: the dictionary \<^verbatim>\<open>update_message\<close> sends under \<^verbatim>\<open>"message"\<close> holds exactly the
  parameters among name, subject, fromname and fromemail that were supplied, each with its
  string value, so an omitted parameter is absent and never null; every call the tool
  makes to the target API is a PUT with that body, and once the configuration is resolved
  the tool makes that call. The call \<^verbatim>\<open>update_message("42", subject="Hi")\<close> sends
  \<^verbatim>\<open>{"message": {"subject": "Hi"}}\<close>.
\<close>

theorem update_message_body:
  "message_fields name subject fromname fromemail =
     supplied_fields name subject fromname fromemail \<and>
   (\<forall>k. map_of (supplied_fields name subject fromname fromemail) k =
      (if k = ''name'' then map_option JStr name
       else if k = ''subject'' then map_option JStr subject
       else if k = ''fromname'' then map_option JStr fromname
       else if k = ''fromemail'' then map_option JStr fromemail
       else None)) \<and>
   (\<forall>q. Api q \<in> set (trace w (Update_message message_id name subject fromname fromemail)) \<longrightarrow>
      verb q = PUT \<and>
      json_body q =
        Some (JObj [(''message'', JObj (supplied_fields name subject fromname fromemail))])) \<and>
   (get_activecampaign_config w [] = (Inr (u, key), l1) \<longrightarrow>
    get_headers w l1 = (Inr hs, l2) \<longrightarrow>
      trace w (Update_message message_id name subject fromname fromemail) =
        l2 @ [Api \<lparr> verb = PUT, url = rstrip_slash u @ ''/api/3/messages/'' @ message_id,
                     headers = hs, params = [],
                     json_body = Some (JObj [(''message'',
                        JObj (supplied_fields name subject fromname fromemail))]),
                     timeout = Some 30 \<rparr>])"
proof (intro conjI allI impI)
  show "message_fields name subject fromname fromemail =
     supplied_fields name subject fromname fromemail"
    by (rule message_fields_supplied)
next
  fix k
  show "map_of (supplied_fields name subject fromname fromemail) k =
      (if k = ''name'' then map_option JStr name
       else if k = ''subject'' then map_option JStr subject
       else if k = ''fromname'' then map_option JStr fromname
       else if k = ''fromemail'' then map_option JStr fromemail
       else None)"
    using message_fields_lookup[of name subject fromname fromemail k]
    by (simp only: message_fields_supplied)
next
  fix q
  assume "Api q \<in> set (trace w (Update_message message_id name subject fromname fromemail))"
  then have "Api q \<in> set (snd (make_request w ''PUT'' (''/api/3/messages/'' @ message_id)
      (Some (JObj [(''message'', JObj (message_fields name subject fromname fromemail))])) []))"
    by (simp add: trace_def invoke_def update_message_def then_do_lift_log)
  from make_request_api_call[OF this]
  show "verb q = PUT"
    and "json_body q =
      Some (JObj [(''message'', JObj (supplied_fields name subject fromname fromemail))])"
    by (auto simp: api_request_def upper_verbs message_fields_supplied)
next
  assume c: "get_activecampaign_config w [] = (Inr (u, key), l1)"
    and h: "get_headers w l1 = (Inr hs, l2)"
  have "trace w (Update_message message_id name subject fromname fromemail) =
      snd (make_request w ''PUT'' (''/api/3/messages/'' @ message_id)
             (Some (JObj [(''message'',
                JObj (supplied_fields name subject fromname fromemail))])) [])"
    by (simp add: trace_def invoke_def update_message_def then_do_lift_log
          message_fields_supplied)
  also have "\<dots> = l2 @ [Api \<lparr> verb = PUT,
        url = rstrip_slash u @ ''/api/3/messages/'' @ message_id,
        headers = hs, params = [],
        json_body = Some (JObj [(''message'',
           JObj (supplied_fields name subject fromname fromemail))]),
        timeout = Some 30 \<rparr>]"
    by (rule make_request_resolved[OF c h]) (simp add: api_request_def upper_verbs)
  finally show "trace w (Update_message message_id name subject fromname fromemail) =
      l2 @ [Api \<lparr> verb = PUT, url = rstrip_slash u @ ''/api/3/messages/'' @ message_id,
                   headers = hs, params = [],
                   json_body = Some (JObj [(''message'',
                      JObj (supplied_fields name subject fromname fromemail))]),
                   timeout = Some 30 \<rparr>]" .
qed

theorem update_message_body_witness:
  "trace (example_world example_credentials (answers 200 [] (JObj [])))
     (Update_message ''42'' None (Some ''Hi'') None None) =
     [example_broker_call, example_broker_call, Api update_subject_request] \<and>
   json_body update_subject_request =
     Some (JObj [(''message'', JObj [(''subject'', JStr ''Hi'')])])"
proof -
  let ?w = "example_world example_credentials (answers 200 [] (JObj []))"
  let ?b = example_broker_call
  let ?hs = "[(''Api-Token'', JStr ''key-1''), (''Content-Type'', JStr ''application/json''),
              (''Accept'', JStr ''application/json'')]"
  have c: "get_activecampaign_config ?w [] =
      (Inr (''https://acme.api-us1.com'', JStr ''key-1''), [?b])"
    by code_simp
  have h: "get_headers ?w [?b] = (Inr ?hs, [?b, ?b])"
    by code_simp
  have r: "rstrip_slash ''https://acme.api-us1.com'' = ''https://acme.api-us1.com''"
    by code_simp
  have s: "supplied_fields None (Some ''Hi'') None None = [(''subject'', JStr ''Hi'')]"
    by (simp add: supplied_fields_def)
  show ?thesis
    using update_message_body[where w = ?w and name = None and subject = "Some ''Hi''"
        and fromname = None and fromemail = None and message_id = "''42''"
        and u = "''https://acme.api-us1.com''" and key = "JStr ''key-1''" and ?l1.0 = "[?b]"
        and hs = ?hs and ?l2.0 = "[?b, ?b]"] c h r s
    by (simp add: update_subject_request_def)
qed

lemma put_log_length:
  "length (snd (make_request w ''PUT'' endpoint d log)) =
   length (snd (make_request w ''PUT'' endpoint d' log))"
  by (auto simp: make_request_def then_do_def send_def api_request_def upper_verbs perform_def
           split: prod.splits sum.splits)

text \<open>
  C9: with all four optional parameters omitted, \<^verbatim>\<open>update_message\<close> still sends the PUT
  request once the configuration is resolved, and its body is \<^verbatim>\<open>{"message": {}}\<close>; it
  makes as many calls as an invocation that supplies fields.
\<close>

theorem update_message_without_fields:
  "(get_activecampaign_config w [] = (Inr (u, k), l1) \<longrightarrow> get_headers w l1 = (Inr hs, l2) \<longrightarrow>
      trace w (Update_message message_id None None None None) =
        l2 @ [Api \<lparr> verb = PUT, url = rstrip_slash u @ ''/api/3/messages/'' @ message_id,
                     headers = hs, params = [],
                     json_body = Some (JObj [(''message'', JObj [])]),
                     timeout = Some 30 \<rparr>]) \<and>
   length (trace w (Update_message message_id None None None None)) =
     length (trace w (Update_message message_id name subject fromname fromemail))"
proof (intro conjI impI)
  assume c: "get_activecampaign_config w [] = (Inr (u, k), l1)"
    and h: "get_headers w l1 = (Inr hs, l2)"
  have "trace w (Update_message message_id None None None None) =
      snd (make_request w ''PUT'' (''/api/3/messages/'' @ message_id)
             (Some (JObj [(''message'', JObj [])])) [])"
    by (simp add: trace_def invoke_def update_message_def then_do_lift_log message_fields_def)
  also have "\<dots> = l2 @ [Api \<lparr> verb = PUT,
        url = rstrip_slash u @ ''/api/3/messages/'' @ message_id,
        headers = hs, params = [], json_body = Some (JObj [(''message'', JObj [])]),
        timeout = Some 30 \<rparr>]"
    by (rule make_request_resolved[OF c h]) (simp add: api_request_def upper_verbs)
  finally show "trace w (Update_message message_id None None None None) =
      l2 @ [Api \<lparr> verb = PUT, url = rstrip_slash u @ ''/api/3/messages/'' @ message_id,
                   headers = hs, params = [],
                   json_body = Some (JObj [(''message'', JObj [])]),
                   timeout = Some 30 \<rparr>]" .
next
  show "length (trace w (Update_message message_id None None None None)) =
     length (trace w (Update_message message_id name subject fromname fromemail))"
    by (simp add: trace_def invoke_def update_message_def then_do_lift_log put_log_length[of w _ _ "[]"])
qed

theorem update_message_without_fields_witness:
  "trace (example_world example_credentials (answers 200 [] (JObj [])))
     (Update_message ''42'' None None None None) =
   [Broker (broker_request ''conn-1'' ''activecampaign'' ''https://broker.test'' ''s3cret''),
    Broker (broker_request ''conn-1'' ''activecampaign'' ''https://broker.test'' ''s3cret''),
    Api \<lparr> verb = PUT, url = ''https://acme.api-us1.com/api/3/messages/42'',
          headers = [(''Api-Token'', JStr ''key-1''), (''Content-Type'', JStr ''application/json''),
                     (''Accept'', JStr ''application/json'')],
          params = [], json_body = Some (JObj [(''message'', JObj [])]),
          timeout = Some 30 \<rparr>]"
proof -
  let ?w = "example_world example_credentials (answers 200 [] (JObj []))"
  let ?b = "Broker (broker_request ''conn-1'' ''activecampaign'' ''https://broker.test'' ''s3cret'')"
  let ?hs = "[(''Api-Token'', JStr ''key-1''), (''Content-Type'', JStr ''application/json''),
              (''Accept'', JStr ''application/json'')]"
  have c: "get_activecampaign_config ?w [] = (Inr (''https://acme.api-us1.com'', JStr ''key-1''), [?b])"
    by code_simp
  have h: "get_headers ?w [?b] = (Inr ?hs, [?b, ?b])"
    by code_simp
  have r: "rstrip_slash ''https://acme.api-us1.com'' = ''https://acme.api-us1.com''"
    by code_simp
  show ?thesis
    using update_message_without_fields[of ?w "''https://acme.api-us1.com''" "JStr ''key-1''"
        "[?b]" ?hs "[?b, ?b]" "''42''"] c h r
    by simp
qed

section \<open>The argument of list_custom_field_values\<close>

text \<open>
  C8: \<^verbatim>\<open>list_custom_field_values\<close> does not depend on its \<^verbatim>\<open>field_id\<close>: in the same
  world any two values give the same result and the same calls, and a call to the target
  API is a GET of \<^verbatim>\<open>/api/3/fieldValues\<close> without a body.
\<close>

theorem field_id_ignored:
  "invoke w (List_custom_field_values f1) = invoke w (List_custom_field_values f2) \<and>
   (\<forall>q. Api q \<in> set (trace w (List_custom_field_values f1)) \<longrightarrow>
      verb q = GET \<and> json_body q = None \<and> (\<exists>u. url q = u @ ''/api/3/fieldValues''))"
proof (intro conjI allI impI)
  show "invoke w (List_custom_field_values f1) = invoke w (List_custom_field_values f2)"
    by (simp add: invoke_def list_custom_field_values_def)
next
  fix q
  assume "Api q \<in> set (trace w (List_custom_field_values f1))"
  then have "Api q \<in> set (snd (make_request w ''GET'' ''/api/3/fieldValues'' None []))"
    by (simp add: trace_def invoke_def list_custom_field_values_def then_do_lift_log)
  from make_request_api_call[OF this]
  show "verb q = GET" and "json_body q = None" and "\<exists>u. url q = u @ ''/api/3/fieldValues''"
    by (auto simp: api_request_def upper_verbs)
qed


theorem field_id_ignored_witness:
  "Api \<lparr> verb = GET, url = ''https://acme.api-us1.com/api/3/fieldValues'',
          headers = [(''Api-Token'', JStr ''key-1''), (''Content-Type'', JStr ''application/json''),
                     (''Accept'', JStr ''application/json'')],
          params = [], json_body = None, timeout = Some 30 \<rparr>
     \<in> set (trace (example_world example_credentials (answers 200 [] (JObj [])))
              (List_custom_field_values ''12'')) \<and>
   invoke (example_world example_credentials (answers 200 [] (JObj [])))
     (List_custom_field_values ''12'') =
   invoke (example_world example_credentials (answers 200 [] (JObj [])))
     (List_custom_field_values ''99'')"
proof -
  have h: "Api \<lparr> verb = GET, url = ''https://acme.api-us1.com/api/3/fieldValues'',
          headers = [(''Api-Token'', JStr ''key-1''), (''Content-Type'', JStr ''application/json''),
                     (''Accept'', JStr ''application/json'')],
          params = [], json_body = None, timeout = Some 30 \<rparr>
     \<in> set (trace (example_world example_credentials (answers 200 [] (JObj [])))
              (List_custom_field_values ''12''))"
    by code_simp
  show ?thesis
    using h field_id_ignored[of "example_world example_credentials (answers 200 [] (JObj []))"
        "''12''" "''99''"]
    by blast
qed

section \<open>Diagnostic tools\<close>

text \<open>What the \<^verbatim>\<open>try\<close> block of \<^verbatim>\<open>health_check\<close> does once both calls have returned.\<close>

lemma health_check_returned:
  assumes "get_connection_credentials w [] = (Inr credentials, l1)"
    and "make_request w ''GET'' ''/api/3/users'' None l1 = (Inr res, l2)"
  shows "invoke w Health_check =
     or_status_error (lift (
       bind_res (py_contains ''error'' res) (\<lambda>has_error.
         if has_error then
           bind_res (py_getitem res ''error'') (\<lambda>m. Inr (status_error m))
         else health_report credentials))) l2"
  using assms
  by (simp add: invoke_def health_check_def or_status_error_def then_do_def)

text \<open>
  C6: once the broker call of \<^verbatim>\<open>health_check\<close> and its \<^verbatim>\<open>make_request\<close> have both
  returned, a result without \<^verbatim>\<open>"error"\<close> gives \<^verbatim>\<open>{"status": "ok", ...}\<close> with the
  connection id and the hostname of the broker's answer, and a result that is an error
  dictionary gives \<^verbatim>\<open>{"status": "error", "message": that error}\<close>.
\<close>

theorem health_check_outcomes:
  assumes "get_connection_credentials w [] = (Inr credentials, l1)"
    and "make_request w ''GET'' ''/api/3/users'' None l1 = (Inr res, l2)"
  shows "(py_contains ''error'' res = Inr False \<longrightarrow> credentials = JObj kvs \<longrightarrow>
          nested credentials ''connection_config'' ''hostname'' = Some hostname \<longrightarrow>
            invoke w Health_check =
              (Inr (JObj [(''status'', JStr ''ok''),
                          (''message'', JStr ''API connection successful via Nango''),
                          (''connection_id'',
                             case map_of kvs ''connection_id'' of Some v \<Rightarrow> v | None \<Rightarrow> JNull),
                          (''hostname'', hostname),
                          (''provider'',
                             case map_of kvs ''provider'' of Some v \<Rightarrow> v | None \<Rightarrow> JNull)]),
               l2)) \<and>
         (res = JObj r \<longrightarrow> map_of r ''error'' = Some m \<longrightarrow>
            invoke w Health_check = (Inr (status_error m), l2)) \<and>
         (res = error_result msg code \<longrightarrow>
            invoke w Health_check = (Inr (status_error (JStr msg)), l2))"
proof (intro conjI impI)
  assume "py_contains ''error'' res = Inr False" "credentials = JObj kvs"
    "nested credentials ''connection_config'' ''hostname'' = Some hostname"
  then show "invoke w Health_check =
      (Inr (JObj [(''status'', JStr ''ok''),
                  (''message'', JStr ''API connection successful via Nango''),
                  (''connection_id'',
                     case map_of kvs ''connection_id'' of Some v \<Rightarrow> v | None \<Rightarrow> JNull),
                  (''hostname'', hostname),
                  (''provider'',
                     case map_of kvs ''provider'' of Some v \<Rightarrow> v | None \<Rightarrow> JNull)]),
       l2)"
    unfolding health_check_returned[OF assms]
    by (auto simp: or_status_error_def lift_def bind_res_def nested_def health_report_def
             split: option.splits json.splits)
next
  assume "res = JObj r" "map_of r ''error'' = Some m"
  moreover from this have "''error'' \<in> fst ` set r"
    by (metis map_of_eq_None_iff option.distinct(1))
  ultimately show "invoke w Health_check = (Inr (status_error m), l2)"
    unfolding health_check_returned[OF assms]
    by (simp add: or_status_error_def lift_def bind_res_def)
next
  assume "res = error_result msg code"
  then show "invoke w Health_check = (Inr (status_error (JStr msg)), l2)"
    unfolding health_check_returned[OF assms]
    by (simp add: or_status_error_def lift_def bind_res_def error_result_def)
qed

theorem health_check_outcomes_witness:
  "invoke users_world Health_check =
     (Inr (JObj [(''status'', JStr ''ok''),
                 (''message'', JStr ''API connection successful via Nango''),
                 (''connection_id'', JStr ''conn-1''),
                 (''hostname'', JStr ''acme.api-us1.com''),
                 (''provider'', JStr ''activecampaign'')]),
      [example_broker_call, example_broker_call, example_broker_call, Api users_request]) \<and>
   invoke server_error_world Health_check =
     (Inr (JObj [(''status'', JStr ''error''),
                 (''message'', JStr ''500 Server Error: Internal Server Error'')]),
      [example_broker_call, example_broker_call, example_broker_call, Api users_request])"
proof -
  let ?l1 = "[example_broker_call]"
  let ?l2 = "[example_broker_call, example_broker_call, example_broker_call, Api users_request]"
  have c: "get_connection_credentials users_world [] = (Inr example_credentials, ?l1)"
    by code_simp
  have m: "make_request users_world ''GET'' ''/api/3/users'' None ?l1 =
      (Inr (JObj [(''users'', JArr [])]), ?l2)"
    by code_simp
  have c': "get_connection_credentials server_error_world [] = (Inr example_credentials, ?l1)"
    by code_simp
  have m': "make_request server_error_world ''GET'' ''/api/3/users'' None ?l1 =
      (Inr (error_result ''500 Server Error: Internal Server Error'' (Some 500)), ?l2)"
    by code_simp
  have p: "py_contains ''error'' (JObj [(''users'', JArr [])]) = Inr False" by simp
  have n: "nested example_credentials ''connection_config'' ''hostname'' =
      Some (JStr ''acme.api-us1.com'')"
    by (simp add: nested_def example_credentials_def)
  have ok: "invoke users_world Health_check =
     (Inr (JObj [(''status'', JStr ''ok''),
                 (''message'', JStr ''API connection successful via Nango''),
                 (''connection_id'', JStr ''conn-1''),
                 (''hostname'', JStr ''acme.api-us1.com''),
                 (''provider'', JStr ''activecampaign'')]), ?l2)"
    using health_check_outcomes[OF c m, of
        "[(''connection_id'', JStr ''conn-1''), (''provider'', JStr ''activecampaign''),
          (''credentials'', JObj [(''type'', JStr ''API_KEY''), (''apiKey'', JStr ''key-1'')]),
          (''connection_config'', JObj [(''hostname'', JStr ''acme.api-us1.com'')])]"
        "JStr ''acme.api-us1.com''"] p n
    by (simp add: example_credentials_def)
  have err: "invoke server_error_world Health_check =
     (Inr (JObj [(''status'', JStr ''error''),
                 (''message'', JStr ''500 Server Error: Internal Server Error'')]), ?l2)"
    using health_check_outcomes[OF c' m', of _ _ _ _
        "''500 Server Error: Internal Server Error''" "Some 500"]
    by (simp add: status_error_def)
  show ?thesis using ok err by simp
qed

lemma health_report_status:
  "health_report c = Inr d \<Longrightarrow> status_of d = JStr ''ok'' \<and> status_dictionary ''ok'' d"
  by (auto simp: health_report_def bind_res_def status_of_def status_dictionary_def
           split: sum.splits)

lemma connection_info_status:
  "connection_info c = Inr d \<Longrightarrow>
   status_of d = JStr ''success'' \<and> status_dictionary ''success'' d"
  by (auto simp: connection_info_def bind_res_def status_of_def status_dictionary_def
           split: sum.splits)

lemma status_error_status:
  "status_of (status_error m) = JStr ''error''" "status_dictionary good (status_error m)"
  by (simp_all add: status_of_def status_error_def status_dictionary_def)

lemma health_check_result:
  "result w Health_check =
     (case get_connection_credentials w [] of
        (Inl e, l1) \<Rightarrow> Inr (status_error (JStr (str_exn e)))
      | (Inr credentials, l1) \<Rightarrow>
          (case make_request w ''GET'' ''/api/3/users'' None l1 of
             (Inl e, l2) \<Rightarrow> Inr (status_error (JStr (str_exn e)))
           | (Inr res, l2) \<Rightarrow>
               (case py_contains ''error'' res of
                  Inl e \<Rightarrow> Inr (status_error (JStr (str_exn e)))
                | Inr True \<Rightarrow>
                    (case py_getitem res ''error'' of
                       Inl e \<Rightarrow> Inr (status_error (JStr (str_exn e)))
                     | Inr m \<Rightarrow> Inr (status_error m))
                | Inr False \<Rightarrow>
                    (case health_report credentials of
                       Inl e \<Rightarrow> Inr (status_error (JStr (str_exn e)))
                     | Inr d \<Rightarrow> Inr d))))"
  by (simp add: result_def invoke_def health_check_def or_status_error_def then_do_def lift_def
        bind_res_def split: prod.splits sum.splits bool.splits)

lemma connection_info_result:
  "result w Get_nango_connection_info =
     (case get_connection_credentials w [] of
        (Inl e, l) \<Rightarrow> Inr (status_error (JStr (str_exn e)))
      | (Inr credentials, l) \<Rightarrow>
          (case connection_info credentials of
             Inl e \<Rightarrow> Inr (status_error (JStr (str_exn e)))
           | Inr d \<Rightarrow> Inr d))"
  by (simp add: result_def invoke_def get_nango_connection_info_def or_status_error_def
        then_do_def lift_def split: prod.splits sum.splits)

text \<open>
  C10: \<^verbatim>\<open>health_check\<close> and \<^verbatim>\<open>get_nango_connection_info\<close> never raise: in every world
  each returns a dictionary whose \<^verbatim>\<open>"status"\<close> is \<^verbatim>\<open>"ok"\<close> (respectively
  \<^verbatim>\<open>"success"\<close>) exactly when the tool succeeds and is \<^verbatim>\<open>"error"\<close>, together with a
  \<^verbatim>\<open>"message"\<close>, otherwise; an exception of the broker call, of \<^verbatim>\<open>make_request\<close> or of
  reading the broker's answer becomes the message \<^verbatim>\<open>str(e)\<close>.
\<close>

theorem diagnostics_never_raise:
  "(\<exists>j. result w Health_check = Inr j \<and> status_dictionary ''ok'' j \<and>
        (status_of j = JStr ''ok'' \<longleftrightarrow> health_check_succeeds w)) \<and>
   (\<exists>j. result w Get_nango_connection_info = Inr j \<and> status_dictionary ''success'' j \<and>
        (status_of j = JStr ''success'' \<longleftrightarrow> connection_info_succeeds w)) \<and>
   (get_connection_credentials w [] = (Inl e, l) \<longrightarrow>
      result w Health_check = Inr (status_error (JStr (str_exn e))) \<and>
      result w Get_nango_connection_info = Inr (status_error (JStr (str_exn e)))) \<and>
   (get_connection_credentials w [] = (Inr c, l1) \<longrightarrow>
      (make_request w ''GET'' ''/api/3/users'' None l1 = (Inl e, l2) \<longrightarrow>
         result w Health_check = Inr (status_error (JStr (str_exn e)))) \<and>
      (connection_info c = Inl e \<longrightarrow>
         result w Get_nango_connection_info = Inr (status_error (JStr (str_exn e)))))"
proof (intro conjI impI)
  show "\<exists>j. result w Health_check = Inr j \<and> status_dictionary ''ok'' j \<and>
        (status_of j = JStr ''ok'' \<longleftrightarrow> health_check_succeeds w)"
    unfolding health_check_result health_check_succeeds_def
    by (auto simp: status_error_status health_report_status
             split: prod.splits sum.splits bool.splits)
  show "\<exists>j. result w Get_nango_connection_info = Inr j \<and> status_dictionary ''success'' j \<and>
        (status_of j = JStr ''success'' \<longleftrightarrow> connection_info_succeeds w)"
    unfolding connection_info_result connection_info_succeeds_def
    by (auto simp: status_error_status connection_info_status split: prod.splits sum.splits)
next
  assume "get_connection_credentials w [] = (Inl e, l)"
  then show "result w Health_check = Inr (status_error (JStr (str_exn e)))"
    and "result w Get_nango_connection_info = Inr (status_error (JStr (str_exn e)))"
    by (simp_all add: health_check_result connection_info_result)
next
  assume "get_connection_credentials w [] = (Inr c, l1)"
    and "make_request w ''GET'' ''/api/3/users'' None l1 = (Inl e, l2)"
  then show "result w Health_check = Inr (status_error (JStr (str_exn e)))"
    by (simp add: health_check_result)
next
  assume "get_connection_credentials w [] = (Inr c, l1)" and "connection_info c = Inl e"
  then show "result w Get_nango_connection_info = Inr (status_error (JStr (str_exn e)))"
    by (simp add: connection_info_result)
qed

theorem diagnostics_never_raise_witness:
  "result unconfigured_world Health_check =
     Inr (status_error (JStr ''Missing required Nango environment variables'')) \<and>
   result unconfigured_world Get_nango_connection_info =
     Inr (status_error (JStr ''Missing required Nango environment variables'')) \<and>
   (\<exists>j. result users_world Health_check = Inr j \<and> status_of j = JStr ''ok'') \<and>
   (\<exists>j. result users_world Get_nango_connection_info = Inr j \<and> status_of j = JStr ''success'')"
proof -
  have a: "get_connection_credentials unconfigured_world [] =
      (Inl (ValueError ''Missing required Nango environment variables''), [])"
    by code_simp
  have h: "health_check_succeeds users_world" by code_simp
  have n: "connection_info_succeeds users_world" by code_simp
  have u: "result unconfigured_world Health_check =
       Inr (status_error (JStr ''Missing required Nango environment variables'')) \<and>
     result unconfigured_world Get_nango_connection_info =
       Inr (status_error (JStr ''Missing required Nango environment variables''))"
    using a diagnostics_never_raise[where w = unconfigured_world
        and e = "ValueError ''Missing required Nango environment variables''" and l = "[]"
        and c = JNull and ?l1.0 = "[]" and ?l2.0 = "[]"]
    by simp
  have s: "(\<exists>j. result users_world Health_check = Inr j \<and> status_of j = JStr ''ok'') \<and>
     (\<exists>j. result users_world Get_nango_connection_info = Inr j \<and>
          status_of j = JStr ''success'')"
    using h n diagnostics_never_raise[where w = users_world and e = "ValueError []"
        and l = "[]" and c = JNull and ?l1.0 = "[]" and ?l2.0 = "[]"]
    by blast
  show ?thesis using u s by blast
qed

section \<open>Configuration errors at the tool boundary\<close>

lemma envelope_tool_raises:
  assumes "response_model t = Some C"
    and "make_request w mth endpoint d [] = (Inl e, l)" 
    and "run_tool w t = then_do (make_request w mth endpoint d) (\<lambda>r. lift (construct w cls C r))"
  shows "invoke w t = (Inl e, l)"
  using assms by (simp add: invoke_def then_do_def)

lemma make_request_first_resolution:
  "get_activecampaign_config w log = (Inl e, l) \<Longrightarrow>
   make_request w mth endpoint d log = (Inl e, l)"
  by (simp add: make_request_def then_do_def)

lemma make_request_second_resolution:
  "get_activecampaign_config w log = (Inr cfg, l1) \<Longrightarrow>
   get_activecampaign_config w l1 = (Inl e, l) \<Longrightarrow>
   make_request w mth endpoint d log = (Inl e, l)"
  by (cases cfg) (simp add: make_request_def then_do_def get_headers_def)

text \<open>
  C2 (as amended): \<^verbatim>\<open>health_check\<close> catches every error raised while the configuration is
  resolved and \<^verbatim>\<open>get_nango_connection_info\<close> the error of its broker call (it resolves
  neither key nor hostname); both return \<^verbatim>\<open>{"status": "error", "message": ...}\<close>. In every
  tool that returns a response model the \<^verbatim>\<open>ValueError\<close> of \<^verbatim>\<open>get_activecampaign_config\<close>,
  at its first call or at its second one through \<^verbatim>\<open>get_headers\<close>, leaves the tool as a
  raised fault.
\<close>

theorem configuration_errors_at_tool_boundary:
  "(response_model t = Some C \<longrightarrow>
      (get_activecampaign_config w [] = (Inl e, l) \<longrightarrow>
         invoke w t = (Inl e, l) \<and> (\<exists>m. e = ValueError m)) \<and>
      (get_activecampaign_config w [] = (Inr cfg, l1) \<longrightarrow>
       get_activecampaign_config w l1 = (Inl e, l) \<longrightarrow>
         invoke w t = (Inl e, l) \<and> (\<exists>m. e = ValueError m))) \<and>
   (get_connection_credentials w [] = (Inl e, l) \<longrightarrow>
      invoke w Health_check = (Inr (status_error (JStr (str_exn e))), l) \<and>
      invoke w Get_nango_connection_info = (Inr (status_error (JStr (str_exn e))), l)) \<and>
   (get_connection_credentials w [] = (Inr c, l0) \<longrightarrow>
      (get_activecampaign_config w l0 = (Inl e, l) \<longrightarrow>
         invoke w Health_check = (Inr (status_error (JStr (str_exn e))), l)) \<and>
      (get_activecampaign_config w l0 = (Inr cfg, l1) \<longrightarrow>
       get_activecampaign_config w l1 = (Inl e, l) \<longrightarrow>
         invoke w Health_check = (Inr (status_error (JStr (str_exn e))), l)))"
proof (intro conjI impI)
  assume C: "response_model t = Some C" and a: "get_activecampaign_config w [] = (Inl e, l)"
  obtain mth endpoint d cls where
    shape: "run_tool w t = then_do (make_request w mth endpoint d) (\<lambda>r. lift (construct w cls C r))"
    using envelope_tool[OF C] by blast
  show "invoke w t = (Inl e, l)"
    using envelope_tool_raises[OF C make_request_first_resolution[OF a] shape] .
  show "\<exists>m. e = ValueError m" using a by (rule config_raises_ValueError)
next
  assume C: "response_model t = Some C"
    and a: "get_activecampaign_config w [] = (Inr cfg, l1)"
    and b: "get_activecampaign_config w l1 = (Inl e, l)"
  obtain mth endpoint d cls where
    shape: "run_tool w t = then_do (make_request w mth endpoint d) (\<lambda>r. lift (construct w cls C r))"
    using envelope_tool[OF C] by blast
  show "invoke w t = (Inl e, l)"
    using envelope_tool_raises[OF C make_request_second_resolution[OF a b] shape] .
  show "\<exists>m. e = ValueError m" using b by (rule config_raises_ValueError)
next
  assume "get_connection_credentials w [] = (Inl e, l)"
  then show "invoke w Health_check = (Inr (status_error (JStr (str_exn e))), l)"
    and "invoke w Get_nango_connection_info = (Inr (status_error (JStr (str_exn e))), l)"
    by (simp_all add: invoke_def health_check_def get_nango_connection_info_def
          or_status_error_def then_do_def)
next
  assume "get_connection_credentials w [] = (Inr c, l0)"
    and "get_activecampaign_config w l0 = (Inl e, l)"
  then show "invoke w Health_check = (Inr (status_error (JStr (str_exn e))), l)"
    using make_request_first_resolution[of w l0 e l "''GET''" "''/api/3/users''" None]
    by (simp add: invoke_def health_check_def or_status_error_def then_do_def)
next
  assume "get_connection_credentials w [] = (Inr c, l0)"
    and "get_activecampaign_config w l0 = (Inr cfg, l1)"
    and "get_activecampaign_config w l1 = (Inl e, l)"
  then show "invoke w Health_check = (Inr (status_error (JStr (str_exn e))), l)"
    using make_request_second_resolution[of w l0 cfg l1 e l "''GET''" "''/api/3/users''" None]
    by (simp add: invoke_def health_check_def or_status_error_def then_do_def)
qed

theorem configuration_errors_at_tool_boundary_witness:
  "invoke unconfigured_world (Get_deal ''7'') = (Inl no_environment_failure, []) \<and>
   invoke (keyless_after 1) (Get_deal ''7'') =
     (Inl no_key_failure, [example_broker_call, example_broker_call]) \<and>
   invoke unconfigured_world Health_check =
     (Inr (status_error (JStr ''Missing required Nango environment variables'')), []) \<and>
   invoke unconfigured_world Get_nango_connection_info =
     (Inr (status_error (JStr ''Missing required Nango environment variables'')), []) \<and>
   invoke (keyless_after 1) Health_check =
     (Inr (status_error (JStr (str_exn no_key_failure))),
      [example_broker_call, example_broker_call]) \<and>
   invoke (keyless_after 2) Health_check =
     (Inr (status_error (JStr (str_exn no_key_failure))),
      [example_broker_call, example_broker_call, example_broker_call])"
proof -
  let ?b = example_broker_call
  have m: "response_model (Get_deal ''7'') = Some DealResponse" by simp
  have a0: "get_activecampaign_config unconfigured_world [] = (Inl no_environment_failure, [])"
    by code_simp
  have a1: "get_activecampaign_config (keyless_after 1) [] = (Inr example_config, [?b])"
    by code_simp
  have a2: "get_activecampaign_config (keyless_after 1) [?b] = (Inl no_key_failure, [?b, ?b])"
    by code_simp
  have b0: "get_connection_credentials unconfigured_world [] =
      (Inl (ValueError ''Missing required Nango environment variables''), [])"
    by code_simp
  have c1: "get_connection_credentials (keyless_after 1) [] = (Inr example_credentials, [?b])"
    by code_simp
  have c2: "get_connection_credentials (keyless_after 2) [] = (Inr example_credentials, [?b])"
    by code_simp
  have d1: "get_activecampaign_config (keyless_after 2) [?b] = (Inr example_config, [?b, ?b])"
    by code_simp
  have d2: "get_activecampaign_config (keyless_after 2) [?b, ?b] =
      (Inl no_key_failure, [?b, ?b, ?b])"
    by code_simp
  have t1: "invoke unconfigured_world (Get_deal ''7'') = (Inl no_environment_failure, [])"
    using m a0 configuration_errors_at_tool_boundary[where t = "Get_deal ''7''"
        and C = DealResponse and w = unconfigured_world and e = no_environment_failure
        and l = "[]" and cfg = example_config and ?l1.0 = "[]" and c = JNull and ?l0.0 = "[]"]
    by simp
  have t2: "invoke (keyless_after 1) (Get_deal ''7'') = (Inl no_key_failure, [?b, ?b])"
    using m a1 a2 configuration_errors_at_tool_boundary[where t = "Get_deal ''7''"
        and C = DealResponse and w = "keyless_after 1" and e = no_key_failure
        and l = "[?b, ?b]" and cfg = example_config and ?l1.0 = "[?b]" and c = JNull
        and ?l0.0 = "[]"]
    by simp
  have t3: "invoke unconfigured_world Health_check =
       (Inr (status_error (JStr ''Missing required Nango environment variables'')), []) \<and>
     invoke unconfigured_world Get_nango_connection_info =
       (Inr (status_error (JStr ''Missing required Nango environment variables'')), [])"
    using b0 configuration_errors_at_tool_boundary[where t = "Get_deal ''7''"
        and C = DealResponse and w = unconfigured_world
        and e = "ValueError ''Missing required Nango environment variables''"
        and l = "[]" and cfg = example_config and ?l1.0 = "[]" and c = JNull and ?l0.0 = "[]"]
    by simp
  have t4: "invoke (keyless_after 1) Health_check =
       (Inr (status_error (JStr (str_exn no_key_failure))), [?b, ?b])"
    using c1 a2 configuration_errors_at_tool_boundary[where t = "Get_deal ''7''"
        and C = DealResponse and w = "keyless_after 1" and e = no_key_failure
        and l = "[?b, ?b]" and cfg = example_config and ?l1.0 = "[]" and c = example_credentials
        and ?l0.0 = "[?b]"]
    by simp
  have t5: "invoke (keyless_after 2) Health_check =
       (Inr (status_error (JStr (str_exn no_key_failure))), [?b, ?b, ?b])"
    using c2 d1 d2 configuration_errors_at_tool_boundary[where t = "Get_deal ''7''"
        and C = DealResponse and w = "keyless_after 2" and e = no_key_failure
        and l = "[?b, ?b, ?b]" and cfg = example_config and ?l1.0 = "[?b, ?b]"
        and c = example_credentials and ?l0.0 = "[?b]"]
    by simp
  show ?thesis using t1 t2 t3 t4 t5 by simp
qed

theorem tool_boundary_counterexample:
  "result unconfigured_world (Get_deal ''7'') = Inl no_environment_failure"
  by code_simp

end
